theory Spec2Isabelle
  imports Complex_Main "HOL-Library.Word" "HOL-Library.AList" "HOL-Library.Multiset"
begin

section \<open>The kubelet monitor of kubeturbo\<close>

text \<open>
  A shallow embedding of \<^verbatim>\<open>pkg/discovery/monitoring/kubelet/kubelet_monitor.go\<close>.
  Every Go function of that file is a HOL function of the same name. What the Go code
  mutates (the metric sink, the stop channel) is passed in and returned; a run-time panic
  is the left injection of a sum type.
\<close>

subsection \<open>float64\<close>

text \<open>
  Go's \<^verbatim>\<open>float64\<close> values are reals extended with the two infinities and NaN, so that
  a division by zero and the comparisons of a NaN behave as they do in Go: \<^verbatim>\<open>x / 0\<close> is
  an infinity (NaN when \<^verbatim>\<open>x\<close> is zero too), and every ordering test on NaN is false.
  Rounding, overflow to infinity and the sign of zero are not modelled: a finite result
  is the exact real, and a zero divisor counts as \<^verbatim>\<open>+0\<close> (the capacities of this file
  are sums of unsigned integers). \<open>Inf True\<close> is \<^verbatim>\<open>+Inf\<close>, \<open>Inf False\<close> is \<^verbatim>\<open>-Inf\<close>.
\<close>

datatype float64 = Fin real | Inf bool | NaN

fun fadd :: "float64 \<Rightarrow> float64 \<Rightarrow> float64" where
  "fadd (Fin a) (Fin b) = Fin (a + b)"
| "fadd (Fin a) (Inf t) = Inf t"
| "fadd (Inf s) (Fin b) = Inf s"
| "fadd (Inf s) (Inf t) = (if s = t then Inf s else NaN)"
| "fadd NaN y = NaN"
| "fadd x NaN = NaN"

fun fmul :: "float64 \<Rightarrow> float64 \<Rightarrow> float64" where
  "fmul (Fin a) (Fin b) = Fin (a * b)"
| "fmul (Fin a) (Inf t) = (if a = 0 then NaN else Inf (t = (0 < a)))"
| "fmul (Inf s) (Fin b) = (if b = 0 then NaN else Inf (s = (0 < b)))"
| "fmul (Inf s) (Inf t) = Inf (s = t)"
| "fmul NaN y = NaN"
| "fmul x NaN = NaN"

fun fdiv :: "float64 \<Rightarrow> float64 \<Rightarrow> float64" where
  "fdiv (Fin a) (Fin b) =
     (if b \<noteq> 0 then Fin (a / b) else if a = 0 then NaN else Inf (0 < a))"
| "fdiv (Fin a) (Inf t) = Fin 0"
| "fdiv (Inf s) (Fin b) = Inf (s = (0 \<le> b))"
| "fdiv (Inf s) (Inf t) = NaN"
| "fdiv NaN y = NaN"
| "fdiv x NaN = NaN"

text \<open>\<^verbatim>\<open>x <= y\<close>, \<^verbatim>\<open>x >= y\<close> and \<^verbatim>\<open>x != y\<close> on float64.\<close>

fun fle :: "float64 \<Rightarrow> float64 \<Rightarrow> bool" where
  "fle (Fin a) (Fin b) = (a \<le> b)"
| "fle (Fin a) (Inf t) = t"
| "fle (Inf s) (Fin b) = (\<not> s)"
| "fle (Inf s) (Inf t) = (\<not> s \<or> t)"
| "fle NaN y = False"
| "fle x NaN = False"

definition fge :: "float64 \<Rightarrow> float64 \<Rightarrow> bool" where
  "fge x y = fle y x"

fun fne :: "float64 \<Rightarrow> float64 \<Rightarrow> bool" where
  "fne (Fin a) (Fin b) = (a \<noteq> b)"
| "fne (Inf s) (Inf t) = (s \<noteq> t)"
| "fne x y = True"

text \<open>The conversions \<^verbatim>\<open>float64(u)\<close> of a \<^verbatim>\<open>uint64\<close> and of an \<^verbatim>\<open>int64\<close>.\<close>

definition float64_of_uint64 :: "64 word \<Rightarrow> float64" where
  "float64_of_uint64 u = Fin (real (unat u))"

definition float64_of_int64 :: "64 word \<Rightarrow> float64" where
  "float64_of_int64 i = Fin (real_of_int (sint i))"

text \<open>
  The open interval of valid thresholds: \<open>inRange x\<close> says that \<open>x\<close> is a number
  strictly between 0 and 100.
\<close>

definition inRange :: "float64 \<Rightarrow> bool" where
  "inRange x = (case x of Fin r \<Rightarrow> 0 < r \<and> r < 100 | Inf s \<Rightarrow> False | NaN \<Rightarrow> False)"

subsection \<open>Package util\<close>

text \<open>
  Modelled from the spec: the unit conversions of package \<^verbatim>\<open>util\<close>, whose source is not
  part of the excerpt. The spec describes them as pure functions converting nanocore
  CPU usage to core units and base-2 byte counts to kilobyte and megabyte units.
\<close>

definition MetricNanoToUnit :: "float64 \<Rightarrow> float64" where
  "MetricNanoToUnit v = fdiv v (Fin 1000000000)"

definition Base2BytesToKilobytes :: "float64 \<Rightarrow> float64" where
  "Base2BytesToKilobytes v = fdiv v (Fin 1024)"

definition Base2BytesToMegabytes :: "float64 \<Rightarrow> float64" where
  "Base2BytesToMegabytes v = fdiv v (Fin (1024 * 1024))"

definition Base2MegabytesToBytes :: "float64 \<Rightarrow> float64" where
  "Base2MegabytesToBytes v = fmul v (Fin (1024 * 1024))"

subsection \<open>Package metrics: entries and the sink\<close>

text \<open>
  Modelled from the spec: package \<^verbatim>\<open>metrics\<close> is not part of the excerpt. An entry is
  identified by entity type, entity key, metric type and metric role, and holds a scalar,
  a sequence of (value, timestamp) samples or a cumulative throttling record. The sink is
  the sequence of the entries added to it, oldest first; \<open>AddNewMetricEntries\<close> appends.
  The constants of the package carry the prefix \<open>metrics_\<close>.
\<close>

datatype DiscoveredEntityType = NodeType | PodType | ContainerType | ApplicationType

datatype ResourceType =
  metrics_CPU | metrics_Memory | metrics_CPURequest | metrics_MemoryRequest
  | metrics_VStorage | metrics_StorageAmount | metrics_NumPods | metrics_VCPUThrottling

datatype MetricProp =
  metrics_Used | metrics_Capacity | metrics_Available | metrics_Threshold

text \<open>\<open>Point value timestamp\<close> and \<open>ThrottlingCumulative throttled total timestamp\<close>.\<close>

datatype Point = Point float64 int

datatype ThrottlingCumulative = ThrottlingCumulative float64 float64 int

datatype MetricValue =
  Scalar float64
  | Points "Point list"
  | Cumulative "ThrottlingCumulative list"

datatype EntityMetric =
  EntityResourceMetric DiscoveredEntityType string ResourceType MetricProp MetricValue
  | EntityStateMetric DiscoveredEntityType string string float64

type_synonym EntityMetricSink = "EntityMetric list"

definition NewEntityMetricSink :: EntityMetricSink where
  "NewEntityMetricSink = []"

definition AddNewMetricEntries :: "EntityMetricSink \<Rightarrow> EntityMetric list \<Rightarrow> EntityMetricSink" where
  "AddNewMetricEntries sink entries = sink @ entries"

definition metrics_CpuFrequency :: string where
  "metrics_CpuFrequency = ''CpuFrequency''"

subsection \<open>Panics\<close>

text \<open>
  A run-time panic of the Go program is a value of type \<open>fault\<close>, returned on the left of
  a sum. \<open>SendWouldBlock\<close> is not a panic: it marks a send on a full channel, which
  waits for a receiver.
\<close>

datatype fault =
  NilPointerDereference | SendOnClosedChannel | CloseOfClosedChannel | SendWouldBlock

definition bindF :: "fault + 'a \<Rightarrow> ('a \<Rightarrow> fault + 'b) \<Rightarrow> fault + 'b" where
  "bindF r f = (case r of Inl e \<Rightarrow> Inl e | Inr v \<Rightarrow> f v)"

fun foldF :: "('a \<Rightarrow> 's \<Rightarrow> fault + 's) \<Rightarrow> 'a list \<Rightarrow> 's \<Rightarrow> fault + 's" where
  "foldF f [] s = Inr s"
| "foldF f (x # xs) s = (case f x s of Inl e \<Rightarrow> Inl e | Inr s' \<Rightarrow> foldF f xs s')"

text \<open>\<open>deref p\<close> is \<^verbatim>\<open>*p\<close>.\<close>

definition deref :: "'a option \<Rightarrow> fault + 'a" where
  "deref p = (case p of None \<Rightarrow> Inl NilPointerDereference | Some v \<Rightarrow> Inr v)"

subsection \<open>Eviction thresholds\<close>

text \<open>
  The types of \<^verbatim>\<open>evictionapi\<close> as this file uses them. \<open>Quantity\<close> is the pointer field
  of the threshold value, \<open>None\<close> being nil; a threshold given as a percentage carries no
  quantity. \<open>Quantity_Value q\<close> is the call \<^verbatim>\<open>value.Quantity.Value()\<close>, which returns an
  \<^verbatim>\<open>int64\<close> and reads through its receiver, so that it panics on the nil pointer.
  \<open>Percentage\<close> is the \<^verbatim>\<open>float32\<close> field, which converts to \<^verbatim>\<open>float64\<close> unchanged.
\<close>

datatype Signal =
  SignalMemoryAvailable | SignalNodeFsAvailable | SignalImageFsAvailable
  | SignalOther string

record ThresholdValue =
  Quantity :: "64 word option"
  Percentage :: float64

record Threshold =
  Signal :: Signal
  Value :: ThresholdValue

definition Quantity_Value :: "64 word option \<Rightarrow> fault + 64 word" where
  "Quantity_Value q = deref q"

definition GetThresholdPercentile :: "ThresholdValue \<Rightarrow> float64 \<Rightarrow> fault + float64" where
  "GetThresholdPercentile value capacity =
     (if fne (Percentage value) (Fin 0) then Inr (fmul (Percentage value) (Fin 100))
      else bindF (Quantity_Value (Quantity value))
             (\<lambda>q. Inr (fdiv (fmul (float64_of_int64 q) (Fin 100)) capacity)))"

text \<open>
  The loop of \<open>parseThresholdValues\<close> over the thresholds: the state is the triple
  \<open>(memThreshold, rootfsThreshold, imagefsThreshold)\<close>, all zero at the start. A panic
  in \<open>GetThresholdPercentile\<close> ends the loop and the call.
\<close>

definition thresholdStep ::
  "float64 \<Rightarrow> float64 \<Rightarrow> float64 \<Rightarrow> Threshold \<Rightarrow> float64 \<times> float64 \<times> float64
     \<Rightarrow> fault + float64 \<times> float64 \<times> float64" where
  "thresholdStep memoryCapacity rootfsCapacity imagefsCapacity threshold acc =
     (case acc of (memThreshold, rootfsThreshold, imagefsThreshold) \<Rightarrow>
        (case Signal threshold of
           SignalMemoryAvailable \<Rightarrow>
             bindF (GetThresholdPercentile (Value threshold) memoryCapacity)
               (\<lambda>v. Inr (v, rootfsThreshold, imagefsThreshold))
         | SignalNodeFsAvailable \<Rightarrow>
             bindF (GetThresholdPercentile (Value threshold) rootfsCapacity)
               (\<lambda>v. Inr (memThreshold, v, imagefsThreshold))
         | SignalImageFsAvailable \<Rightarrow>
             bindF (GetThresholdPercentile (Value threshold) imagefsCapacity)
               (\<lambda>v. Inr (memThreshold, rootfsThreshold, v))
         | SignalOther s \<Rightarrow> Inr acc))"

definition parseThresholdValues ::
  "string \<Rightarrow> float64 \<Rightarrow> float64 \<Rightarrow> float64 \<Rightarrow> Threshold list \<Rightarrow> EntityMetricSink
     \<Rightarrow> fault + EntityMetricSink" where
  "parseThresholdValues key memoryCapacity rootfsCapacity imagefsCapacity thresholds sink =
     bindF (foldF (thresholdStep memoryCapacity rootfsCapacity imagefsCapacity) thresholds
              (Fin 0, Fin 0, Fin 0))
       (\<lambda>acc. case acc of
          (memThreshold0, rootfsThreshold0, imagefsThreshold) \<Rightarrow>
            let memThreshold =
                  (if fle memThreshold0 (Fin 0) \<or> fge memThreshold0 (Fin 100)
                   then fdiv (fmul (Base2MegabytesToBytes (Fin 100)) (Fin 100)) memoryCapacity
                   else memThreshold0);
                rootfsThreshold1 =
                  (if fle rootfsThreshold0 (Fin 0) \<or> fge rootfsThreshold0 (Fin 100)
                   then Fin 10 else rootfsThreshold0);
                rootfsThreshold =
                  (if fle imagefsThreshold (Fin 0) \<or> fge imagefsThreshold (Fin 100)
                   then Fin 15 else rootfsThreshold1);
                imagefsKey = key @ ''-imagefs'';
                sink1 = AddNewMetricEntries sink
                  [EntityResourceMetric NodeType key metrics_Memory metrics_Threshold
                     (Scalar memThreshold)];
                sink2 = AddNewMetricEntries sink1
                  [EntityResourceMetric NodeType key metrics_VStorage metrics_Threshold
                     (Scalar rootfsThreshold)]
            in Inr (AddNewMetricEntries sink2
                 [EntityResourceMetric NodeType imagefsKey metrics_VStorage metrics_Threshold
                    (Scalar imagefsThreshold)]))"

subsection \<open>Prometheus counter families and the throttling correlator\<close>

text \<open>
  The types of the Prometheus client model (\<^verbatim>\<open>dto\<close>) as this file reads them. A label
  pair is (name, value). \<open>Counter\<close> is the value that \<^verbatim>\<open>metric.Counter.GetValue()\<close>
  returns when present; the getter returns 0 on a nil counter. A nil entry of the
  \<open>Metric\<close> slice is \<open>None\<close>. The map of families is the list of its (name, family)
  pairs in the order in which the \<^verbatim>\<open>range\<close> loop visits them, an order that Go leaves
  unspecified.
\<close>

datatype MetricType =
  MetricType_COUNTER | MetricType_GAUGE | MetricType_SUMMARY | MetricType_UNTYPED
  | MetricType_HISTOGRAM

type_synonym LabelPair = "string \<times> string"

record dto_Metric =
  Label :: "LabelPair list"
  Counter :: "float64 option"

record MetricFamily =
  Type :: MetricType
  Metric :: "dto_Metric option list"

definition Counter_GetValue :: "float64 option \<Rightarrow> float64" where
  "Counter_GetValue c = (case c of None \<Rightarrow> Fin 0 | Some v \<Rightarrow> v)"

text \<open>
  The two family names of package \<^verbatim>\<open>kubeclient\<close>, whose declarations are not part of the
  excerpt; the doc comment of \<open>parseMetricFamilies\<close> spells them out.
\<close>

definition ContainerCPUThrottledTotal :: string where
  "ContainerCPUThrottledTotal = ''container_cpu_cfs_throttled_periods_total''"

definition ContainerCPUTotal :: string where
  "ContainerCPUTotal = ''container_cpu_cfs_periods_total''"

record throttlingMetric =
  cpuThrottled :: float64
  cpuTotal :: float64

text \<open>The loop over the labels of one point; the state is \<open>(name, namespace, podName)\<close>.\<close>

definition labelStep :: "LabelPair \<Rightarrow> string \<times> string \<times> string \<Rightarrow> string \<times> string \<times> string" where
  "labelStep l acc =
     (case acc of (name, namespace, podName) \<Rightarrow>
        if fst l = ''container'' \<or> fst l = ''container_name'' then (snd l, namespace, podName)
        else if fst l = ''namespace'' then (name, snd l, podName)
        else if fst l = ''pod'' \<or> fst l = ''pod_name'' then (name, namespace, snd l)
        else acc)"

text \<open>
  The body of the loop over the points of the family \<open>metricName\<close>. The map \<open>parsed\<close>
  is an association list; it only ever holds non-nil pointers, each reachable from a
  single key, so storing the record is what the Go code does through the pointer.
\<close>

definition parseMetric ::
  "string \<Rightarrow> dto_Metric option \<Rightarrow> (string \<times> throttlingMetric) list
     \<Rightarrow> (string \<times> throttlingMetric) list" where
  "parseMetric metricName metric parsed =
     (case metric of
        None \<Rightarrow> parsed
      | Some mt \<Rightarrow>
          (case fold labelStep (Label mt) ([], [], []) of
             (name, namespace, podName) \<Rightarrow>
               if name = [] then parsed
               else
                 let metricID = namespace @ ''/'' @ podName @ ''/'' @ name;
                     tm = (case map_of parsed metricID of
                             None \<Rightarrow> \<lparr>cpuThrottled = Fin 0, cpuTotal = Fin 0\<rparr>
                           | Some t \<Rightarrow> t);
                     tm' = (if metricName = ContainerCPUTotal
                            then tm\<lparr>cpuTotal := Counter_GetValue (Counter mt)\<rparr>
                            else tm\<lparr>cpuThrottled := Counter_GetValue (Counter mt)\<rparr>)
                 in AList.update metricID tm' parsed))"

text \<open>The loop over the families; a family that is not a counter ends the whole call.\<close>

fun parseFamiliesFrom ::
  "(string \<times> MetricFamily) list \<Rightarrow> (string \<times> throttlingMetric) list
     \<Rightarrow> (string \<times> throttlingMetric) list" where
  "parseFamiliesFrom [] parsed = parsed"
| "parseFamiliesFrom ((metricName, metricFamily) # rest) parsed =
     (if Type metricFamily \<noteq> MetricType_COUNTER then parsed
      else parseFamiliesFrom rest
             (fold (parseMetric metricName) (Metric metricFamily) parsed))"

definition parseMetricFamilies ::
  "(string \<times> MetricFamily) list \<Rightarrow> (string \<times> throttlingMetric) list" where
  "parseMetricFamilies metricFamilies = parseFamiliesFrom metricFamilies []"

subsection \<open>Metric generators\<close>

definition genThrottlingMetrics ::
  "DiscoveredEntityType \<Rightarrow> string \<Rightarrow> float64 \<Rightarrow> float64 \<Rightarrow> int \<Rightarrow> EntityMetricSink
     \<Rightarrow> EntityMetricSink" where
  "genThrottlingMetrics etype key throttled total' timestamp sink =
     AddNewMetricEntries sink
       [EntityResourceMetric etype key metrics_VCPUThrottling metrics_Used
          (Cumulative [ThrottlingCumulative throttled total' timestamp])]"

definition genUsedMetrics ::
  "DiscoveredEntityType \<Rightarrow> string \<Rightarrow> float64 \<Rightarrow> float64 \<Rightarrow> int \<Rightarrow> EntityMetricSink
     \<Rightarrow> EntityMetricSink" where
  "genUsedMetrics etype key cpu memory timestamp sink =
     AddNewMetricEntries sink
       [EntityResourceMetric etype key metrics_CPU metrics_Used (Points [Point cpu timestamp]),
        EntityResourceMetric etype key metrics_Memory metrics_Used
          (Points [Point memory timestamp])]"

definition genRequestUsedMetrics ::
  "DiscoveredEntityType \<Rightarrow> string \<Rightarrow> float64 \<Rightarrow> float64 \<Rightarrow> int \<Rightarrow> EntityMetricSink
     \<Rightarrow> EntityMetricSink" where
  "genRequestUsedMetrics etype key cpu memory timestamp sink =
     AddNewMetricEntries sink
       [EntityResourceMetric etype key metrics_CPURequest metrics_Used
          (Points [Point cpu timestamp]),
        EntityResourceMetric etype key metrics_MemoryRequest metrics_Used
          (Points [Point memory timestamp])]"

definition genNumConsumersUsedMetrics ::
  "DiscoveredEntityType \<Rightarrow> string \<Rightarrow> EntityMetricSink \<Rightarrow> EntityMetricSink" where
  "genNumConsumersUsedMetrics etype key sink =
     AddNewMetricEntries sink
       [EntityResourceMetric etype key metrics_NumPods metrics_Used (Scalar (Fin 1))]"

definition genFSMetrics ::
  "DiscoveredEntityType \<Rightarrow> string \<Rightarrow> float64 \<Rightarrow> float64 \<Rightarrow> float64 \<Rightarrow> EntityMetricSink
     \<Rightarrow> EntityMetricSink" where
  "genFSMetrics etype key capacity used available sink =
     (let sink1 = AddNewMetricEntries sink
            [EntityResourceMetric etype key metrics_VStorage metrics_Capacity (Scalar capacity)]
      in if etype = NodeType
         then AddNewMetricEntries sink1
                [EntityResourceMetric etype key metrics_VStorage metrics_Available
                   (Scalar available)]
         else AddNewMetricEntries sink1
                [EntityResourceMetric etype key metrics_VStorage metrics_Used (Scalar used)])"

definition genPVMetrics ::
  "DiscoveredEntityType \<Rightarrow> string \<Rightarrow> float64 \<Rightarrow> float64 \<Rightarrow> EntityMetricSink
     \<Rightarrow> EntityMetricSink" where
  "genPVMetrics etype key capacity used sink =
     AddNewMetricEntries sink
       [EntityResourceMetric etype key metrics_StorageAmount metrics_Capacity (Scalar capacity),
        EntityResourceMetric etype key metrics_StorageAmount metrics_Used (Scalar used)]"

text \<open>
  \<open>generateThrottlingMetrics\<close> ranges over the correlated map; every value of that map
  is a non-nil pointer, so the test \<^verbatim>\<open>tm != nil\<close> always succeeds. The entries are
  added in the order of the association list.
\<close>

definition generateThrottlingMetrics ::
  "(string \<times> MetricFamily) list \<Rightarrow> int \<Rightarrow> EntityMetricSink \<Rightarrow> EntityMetricSink" where
  "generateThrottlingMetrics metricFamilies timestamp sink =
     fold (\<lambda>(metricID, tm).
             genThrottlingMetrics ContainerType metricID (cpuThrottled tm) (cpuTotal tm)
               timestamp)
       (parseMetricFamilies metricFamilies) sink"

subsection \<open>Kubelet summary statistics\<close>

text \<open>
  The structs of the kubelet stats API as this file reads them. A pointer field is an
  \<open>option\<close>, \<open>None\<close> being nil. Where several Go structs have a field of the same name,
  the field carries a prefix here: \<open>node_\<close>, \<open>pod_\<close>, \<open>container_\<close>, \<open>vol_\<close>, \<open>mem_\<close>.
  \<open>VolumeStats\<close> embeds \<open>FsStats\<close>, as in Go.
\<close>

record CPUStats =
  UsageNanoCores :: "64 word option"

record MemoryStats =
  WorkingSetBytes :: "64 word option"
  mem_AvailableBytes :: "64 word option"

record FsStats =
  CapacityBytes :: "64 word option"
  UsedBytes :: "64 word option"
  AvailableBytes :: "64 word option"

record RuntimeStats =
  ImageFs :: "FsStats option"

record NodeStats =
  NodeName :: string
  node_CPU :: "CPUStats option"
  node_Memory :: "MemoryStats option"
  Fs :: "FsStats option"
  Runtime :: "RuntimeStats option"

record VolumeStats = FsStats +
  vol_Name :: string

record ContainerStats =
  container_Name :: string
  container_CPU :: "CPUStats option"
  container_Memory :: "MemoryStats option"

record PodReference =
  pod_Name :: string
  pod_Namespace :: string

record PodStats =
  PodRef :: PodReference
  Containers :: "ContainerStats list"
  EphemeralStorage :: "FsStats option"
  pod_VolumeStats :: "VolumeStats list"

record Summary =
  summary_Node :: NodeStats
  summary_Pods :: "PodStats list"

record Node =
  node_Name :: string

text \<open>
  Modelled from the spec: the key functions of package \<^verbatim>\<open>util\<close>, whose source is not part
  of the excerpt. The spec says that entity keys are deterministic functions of cluster
  identity: the node name, and the namespace/pod/container tuple.
\<close>

definition NodeKeyFunc :: "Node \<Rightarrow> string" where
  "NodeKeyFunc node = node_Name node"

definition NodeStatsKeyFunc :: "NodeStats \<Rightarrow> string" where
  "NodeStatsKeyFunc nodeStats = NodeName nodeStats"

definition PodMetricId :: "PodReference \<Rightarrow> string" where
  "PodMetricId podRef = pod_Namespace podRef @ ''/'' @ pod_Name podRef"

definition ContainerMetricId :: "string \<Rightarrow> string \<Rightarrow> string" where
  "ContainerMetricId podMId containerName = podMId @ ''/'' @ containerName"

definition ApplicationMetricId :: "string \<Rightarrow> string" where
  "ApplicationMetricId containerMId = ''App-'' @ containerMId"

definition PodVolumeMetricId :: "string \<Rightarrow> string \<Rightarrow> string" where
  "PodVolumeMetricId podKey volName = podKey @ ''/'' @ volName"

subsection \<open>Optional fields\<close>

text \<open>
  \<open>readOr0 conv p\<close> is the value of \<^verbatim>\<open>x\<close> after
  \<^verbatim>\<open>x := float64(0); if p != nil { v := *p; x = conv(float64(v)) }\<close>: the pointer that is tested
  is the pointer that is read.
\<close>

definition readOr0 :: "(float64 \<Rightarrow> float64) \<Rightarrow> 64 word option \<Rightarrow> float64" where
  "readOr0 conv p = (case p of None \<Rightarrow> Fin 0 | Some u \<Rightarrow> conv (float64_of_uint64 u))"

subsection \<open>Parsing node, pod and container statistics\<close>

text \<open>
  \<open>parseNodeStats\<close>. A path such as \<^verbatim>\<open>nodeStats.Fs.CapacityBytes\<close> is the pointer
  \<open>Option.bind (Fs nodeStats) CapacityBytes\<close>, nil when a link of the path is nil, which
  is what the chained nil tests of the source establish. The image file system's available
  bytes are read under a test of its \<^emph>\<open>used\<close> bytes: the test and the read are of
  different pointers, so the read is a \<open>deref\<close> that can fail. The values that the source
  computes for its log lines only are left out.
\<close>

definition parseNodeStats ::
  "bool \<Rightarrow> NodeStats \<Rightarrow> Threshold list \<Rightarrow> int \<Rightarrow> EntityMetricSink \<Rightarrow> fault + EntityMetricSink" where
  "parseNodeStats isFullDiscovery nodeStats thresholds timestamp sink =
     (let cpuUsageCore =
            readOr0 MetricNanoToUnit (Option.bind (node_CPU nodeStats) UsageNanoCores);
          memoryWorkingSetBytes =
            readOr0 id (Option.bind (node_Memory nodeStats) WorkingSetBytes);
          memoryAvailableBytes =
            readOr0 id (Option.bind (node_Memory nodeStats) mem_AvailableBytes);
          rootfsCapacityBytes = readOr0 id (Option.bind (Fs nodeStats) CapacityBytes);
          rootfsAvailableBytes = readOr0 id (Option.bind (Fs nodeStats) AvailableBytes);
          imageFs = Option.bind (Runtime nodeStats) ImageFs;
          imagefsCapacityBytes = readOr0 id (Option.bind imageFs CapacityBytes)
      in bindF
           (if Option.bind imageFs UsedBytes \<noteq> None
            then bindF (deref (Option.bind imageFs AvailableBytes))
                   (\<lambda>u. Inr (float64_of_uint64 u))
            else Inr (Fin 0))
           (\<lambda>imagefsAvailableBytes.
              let key = NodeStatsKeyFunc nodeStats;
                  memoryWorkingSetKiloBytes = Base2BytesToKilobytes memoryWorkingSetBytes;
                  memoryCapacityBytes = fadd memoryAvailableBytes memoryWorkingSetBytes;
                  sink1 = genUsedMetrics NodeType key cpuUsageCore memoryWorkingSetKiloBytes
                            timestamp sink
              in if isFullDiscovery then
                   let imagefsKey = key @ ''-imagefs'';
                       sink2 = genFSMetrics NodeType key rootfsCapacityBytes (Fin 0)
                                 rootfsAvailableBytes sink1;
                       sink3 = genFSMetrics NodeType imagefsKey imagefsCapacityBytes (Fin 0)
                                 imagefsAvailableBytes sink2
                   in parseThresholdValues key memoryCapacityBytes rootfsCapacityBytes
                        imagefsCapacityBytes thresholds sink3
                 else Inr sink1))"

text \<open>
  \<open>parseContainerStats\<close>: the loop state is \<open>(totalUsedCPU, totalUsedMem, sink)\<close>. A
  container without CPU usage or without a memory working set is skipped.
\<close>

definition containerStep ::
  "string \<Rightarrow> int \<Rightarrow> ContainerStats \<Rightarrow> float64 \<times> float64 \<times> EntityMetricSink
     \<Rightarrow> float64 \<times> float64 \<times> EntityMetricSink" where
  "containerStep podMId timestamp container acc =
     (case acc of (totalUsedCPU, totalUsedMem, sink) \<Rightarrow>
        (case Option.bind (container_CPU container) UsageNanoCores of
           None \<Rightarrow> acc
         | Some nanoCores \<Rightarrow>
             (case Option.bind (container_Memory container) WorkingSetBytes of
                None \<Rightarrow> acc
              | Some workingSet \<Rightarrow>
                  let cpuUsed = MetricNanoToUnit (float64_of_uint64 nanoCores);
                      memUsed = Base2BytesToKilobytes (float64_of_uint64 workingSet);
                      containerMId = ContainerMetricId podMId (container_Name container);
                      sink1 = genUsedMetrics ContainerType containerMId cpuUsed memUsed
                                timestamp sink;
                      sink2 = genRequestUsedMetrics ContainerType containerMId cpuUsed memUsed
                                timestamp sink1;
                      appMId = ApplicationMetricId containerMId;
                      sink3 = genUsedMetrics ApplicationType appMId cpuUsed memUsed
                                timestamp sink2
                  in (fadd totalUsedCPU cpuUsed, fadd totalUsedMem memUsed, sink3))))"

definition parseContainerStats ::
  "PodStats \<Rightarrow> int \<Rightarrow> EntityMetricSink \<Rightarrow> float64 \<times> float64 \<times> EntityMetricSink" where
  "parseContainerStats pod timestamp sink =
     fold (containerStep (PodMetricId (PodRef pod)) timestamp) (Containers pod)
       (Fin 0, Fin 0, sink)"

definition parseVolumeStats ::
  "VolumeStats list \<Rightarrow> string \<Rightarrow> EntityMetricSink \<Rightarrow> EntityMetricSink" where
  "parseVolumeStats volStats podKey sink =
     fold (\<lambda>volStat.
             genPVMetrics PodType (PodVolumeMetricId podKey (vol_Name volStat))
               (readOr0 Base2BytesToMegabytes (CapacityBytes volStat))
               (readOr0 Base2BytesToMegabytes (UsedBytes volStat)))
       volStats sink"

text \<open>
  \<open>parsePodStats\<close>; \<open>pvEnabled\<close> is what the feature gate answers for
  \<^verbatim>\<open>features.PersistentVolumes\<close>.
\<close>

definition podStep ::
  "bool \<Rightarrow> bool \<Rightarrow> int \<Rightarrow> PodStats \<Rightarrow> EntityMetricSink \<Rightarrow> EntityMetricSink" where
  "podStep isFullDiscovery pvEnabled timestamp pod sink =
     (case parseContainerStats pod timestamp sink of
        (cpuUsed, memUsed, sink1) \<Rightarrow>
          let key = PodMetricId (PodRef pod);
              ephemeralFsCapacity =
                (case EphemeralStorage pod of
                   None \<Rightarrow> Fin 0
                 | Some es \<Rightarrow> readOr0 Base2BytesToMegabytes (CapacityBytes es));
              ephemeralFsUsed =
                (case EphemeralStorage pod of
                   None \<Rightarrow> Fin 0
                 | Some es \<Rightarrow> readOr0 Base2BytesToMegabytes (UsedBytes es));
              sink2 = genUsedMetrics PodType key cpuUsed memUsed timestamp sink1
          in if isFullDiscovery then
               let sink3 = genNumConsumersUsedMetrics PodType key sink2;
                   sink4 = genFSMetrics PodType key ephemeralFsCapacity ephemeralFsUsed (Fin 0)
                             sink3
               in if pvEnabled then parseVolumeStats (pod_VolumeStats pod) key sink4 else sink4
             else sink2)"

definition parsePodStats ::
  "bool \<Rightarrow> bool \<Rightarrow> PodStats list \<Rightarrow> int \<Rightarrow> EntityMetricSink \<Rightarrow> EntityMetricSink" where
  "parsePodStats isFullDiscovery pvEnabled podStats timestamp sink =
     fold (podStep isFullDiscovery pvEnabled timestamp) podStats sink"

definition parseNodeCpuFreq :: "Node \<Rightarrow> float64 \<Rightarrow> EntityMetricSink \<Rightarrow> EntityMetricSink" where
  "parseNodeCpuFreq node cpuFrequencyMHz sink =
     AddNewMetricEntries sink
       [EntityStateMetric NodeType (NodeKeyFunc node) metrics_CpuFrequency cpuFrequencyMHz]"

subsection \<open>The collaborators of a scrape\<close>

text \<open>
  What a scrape asks of the outside: the calls of the kubelet client, the node address
  lookup of package \<^verbatim>\<open>util\<close>, the feature gate and the clock. A Go call that returns
  \<^verbatim>\<open>(value, error)\<close> returns \<open>Inl err\<close> or \<open>Inr value\<close>. \<open>Now node\<close> is the time in
  milliseconds that the scrape of \<open>node\<close> reads from the clock.
\<close>

type_synonym error = string

record KubeletClient =
  GetNodeCpuFrequency :: "Node \<Rightarrow> error + float64"
  GetSummary :: "string \<Rightarrow> string \<Rightarrow> error + Summary"
  HasCacheBeenUsed :: "string \<Rightarrow> bool"
  GetKubeletThresholds :: "string \<Rightarrow> string \<Rightarrow> error + Threshold list"
  GetCPUThrottlingMetrics :: "string \<Rightarrow> string \<Rightarrow> error + (string \<times> MetricFamily) list"
  GetNodeIPForMonitor :: "Node \<Rightarrow> error + string"
  PersistentVolumesEnabled :: bool
  Now :: "Node \<Rightarrow> int"

text \<open>
  \<open>scrapeKubelet\<close>. Each early \<^verbatim>\<open>return\<close> of the source is a branch that returns the
  sink as it is at that point. When the thresholds or the throttling families cannot be
  fetched the source logs a warning and goes on with the nil value, which is the empty
  list here.
\<close>

definition scrapeKubelet ::
  "KubeletClient \<Rightarrow> bool \<Rightarrow> Node \<Rightarrow> EntityMetricSink \<Rightarrow> fault + EntityMetricSink" where
  "scrapeKubelet kc isFullDiscovery node sink =
     (case (if isFullDiscovery
            then (case GetNodeCpuFrequency kc node of
                    Inl err \<Rightarrow> None
                  | Inr nodefreq \<Rightarrow> Some (parseNodeCpuFreq node nodefreq sink))
            else Some sink) of
        None \<Rightarrow> Inr sink
      | Some sink1 \<Rightarrow>
          (case GetNodeIPForMonitor kc node of
             Inl err \<Rightarrow> Inr sink1
           | Inr ip \<Rightarrow>
               (case GetSummary kc ip (node_Name node) of
                  Inl err \<Rightarrow> Inr sink1
                | Inr summary \<Rightarrow>
                    (case (if HasCacheBeenUsed kc ip
                           then (if isFullDiscovery
                                 then Some (AddNewMetricEntries sink1
                                        [EntityStateMetric NodeType (NodeKeyFunc node)
                                           ''NodeCacheUsed'' (Fin 1)])
                                 else None)
                           else Some sink1) of
                       None \<Rightarrow> Inr sink1
                     | Some sink2 \<Rightarrow>
                         let thresholds =
                               (case GetKubeletThresholds kc ip (node_Name node) of
                                  Inl err \<Rightarrow> [] | Inr ths \<Rightarrow> ths);
                             metricFamilies =
                               (case GetCPUThrottlingMetrics kc ip (node_Name node) of
                                  Inl err \<Rightarrow> [] | Inr fams \<Rightarrow> fams);
                             currentMilliSec = Now kc node;
                             sink3 = generateThrottlingMetrics metricFamilies currentMilliSec
                                       sink2
                         in bindF (parseNodeStats isFullDiscovery (summary_Node summary)
                                     thresholds currentMilliSec sink3)
                              (\<lambda>sink4. Inr (parsePodStats isFullDiscovery
                                 (PersistentVolumesEnabled kc) (summary_Pods summary)
                                 currentMilliSec sink4))))))"

subsection \<open>The monitor and its cycle\<close>

text \<open>
  \<open>stopCh\<close> is a channel of capacity 1: \<open>buffered\<close> counts the values waiting in it.
  The monitor's client is the \<open>KubeletClient\<close> argument of the functions below, and its
  wait group is the completion of the loop over the tasks.
\<close>

record chan =
  buffered :: nat
  closed :: bool

record KubeletMonitor =
  nodeList :: "Node list"
  metricSink :: EntityMetricSink
  stopCh :: chan
  isFullDiscovery :: bool

definition make_chan :: chan where
  "make_chan = \<lparr>buffered = 0, closed = False\<rparr>"

definition NewKubeletMonitor :: "bool \<Rightarrow> KubeletMonitor" where
  "NewKubeletMonitor isFullDiscovery' =
     \<lparr>nodeList = [], metricSink = NewEntityMetricSink, stopCh = make_chan,
      isFullDiscovery = isFullDiscovery'\<rparr>"

definition reset :: "KubeletMonitor \<Rightarrow> KubeletMonitor" where
  "reset m = m\<lparr>metricSink := NewEntityMetricSink, stopCh := make_chan\<rparr>"

definition ReceiveTask :: "KubeletMonitor \<Rightarrow> Node list \<Rightarrow> KubeletMonitor" where
  "ReceiveTask m taskNodeList = (reset m)\<lparr>nodeList := taskNodeList\<rparr>"

text \<open>\<open>Stop\<close> sends one value on the channel.\<close>

definition Stop :: "KubeletMonitor \<Rightarrow> fault + KubeletMonitor" where
  "Stop m =
     (if closed (stopCh m) then Inl SendOnClosedChannel
      else if 1 \<le> buffered (stopCh m) then Inl SendWouldBlock
      else Inr (m\<lparr>stopCh := (stopCh m)\<lparr>buffered := buffered (stopCh m) + 1\<rparr>\<rparr>))"

text \<open>
  One task of \<open>RetrieveResourceStat\<close>: the \<^verbatim>\<open>select\<close> receives from the channel when a
  value is buffered (taking it out) or the channel is closed, and the task returns;
  otherwise the default branch scrapes the node. The state is the channel and the sink. A
  panic in a task ends the program.
\<close>

definition task ::
  "KubeletClient \<Rightarrow> bool \<Rightarrow> Node \<Rightarrow> chan \<times> EntityMetricSink \<Rightarrow> fault + chan \<times> EntityMetricSink" where
  "task kc full n st =
     (case st of (ch, sink) \<Rightarrow>
        if closed ch then Inr (ch, sink)
        else if 0 < buffered ch then Inr (ch\<lparr>buffered := buffered ch - 1\<rparr>, sink)
        else (case scrapeKubelet kc full n sink of
                Inl f \<Rightarrow> Inl f
              | Inr sink' \<Rightarrow> Inr (ch, sink')))"

definition close_chan :: "chan \<Rightarrow> fault + chan" where
  "close_chan ch = (if closed ch then Inl CloseOfClosedChannel else Inr (ch\<lparr>closed := True\<rparr>))"

text \<open>
  \<open>RetrieveResourceStat\<close>. The tasks run concurrently, one per node of the list. The only
  state that two tasks share is the channel, which each reads once in its \<^verbatim>\<open>select\<close>, and
  the sink, to which each only adds. So a run is determined, up to the order of the
  entries in the sink, by the order in which the tasks reach their \<^verbatim>\<open>select\<close>: \<open>order\<close>
  is that order, a permutation of the node list chosen by the scheduler. The tasks are
  run one after the other in that order. The deferred \<^verbatim>\<open>close\<close> runs last.
\<close>

definition RetrieveResourceStat ::
  "KubeletClient \<Rightarrow> KubeletMonitor \<Rightarrow> Node list \<Rightarrow> fault + error option \<times> KubeletMonitor" where
  "RetrieveResourceStat kc m order =
     (if nodeList m = [] then
        bindF (close_chan (stopCh m))
          (\<lambda>ch. Inr (Some ''Invalid nodeList or empty nodeList. Finish Immediately...'',
                     m\<lparr>stopCh := ch\<rparr>))
      else
        bindF (foldF (task kc (isFullDiscovery m)) order (stopCh m, metricSink m))
          (\<lambda>st. case st of (ch, sink) \<Rightarrow>
             bindF (close_chan ch)
               (\<lambda>ch'. Inr (None, m\<lparr>metricSink := sink, stopCh := ch'\<rparr>))))"

text \<open>\<open>Do\<close> returns the sink of the monitor after the cycle, whatever the error was.\<close>

definition Do ::
  "KubeletClient \<Rightarrow> KubeletMonitor \<Rightarrow> Node list \<Rightarrow> fault + EntityMetricSink \<times> KubeletMonitor" where
  "Do kc m order =
     bindF (RetrieveResourceStat kc m order)
       (\<lambda>r. case r of (err, m') \<Rightarrow> Inr (metricSink m', m'))"

text \<open>\<open>schedule m order\<close>: \<open>order\<close> is a possible order of the tasks of the monitor.\<close>

definition schedule :: "KubeletMonitor \<Rightarrow> Node list \<Rightarrow> bool" where
  "schedule m order = (mset order = mset (nodeList m))"

subsection \<open>Vocabulary of the properties\<close>

text \<open>
  The definitions from here on are not part of the program; the statements below use them.
  \<open>hasContainerLabel\<close> holds of a point that carries a \<^verbatim>\<open>container\<close> or
  \<^verbatim>\<open>container_name\<close> label, \<open>dropUnlabelled\<close> removes from a family the points that carry
  none, \<open>throttlingEntry\<close> is the sink entry of one correlated identity, and
  \<open>allTotalZero\<close> says that no identity of a correlated map has a total other than 0.
\<close>

text \<open>
  \<open>quantityPresent t\<close>: the threshold \<open>t\<close>, when it is of one of the three signals that
  \<open>parseThresholdValues\<close> reads and its percentage is 0, carries a quantity.
  \<open>exceeds100MiB c\<close>: the capacity \<open>c\<close> is a number above 100 MiB.
\<close>

definition quantityPresent :: "Threshold \<Rightarrow> bool" where
  "quantityPresent t =
     (case Signal t of
        SignalOther s \<Rightarrow> True
      | _ \<Rightarrow> Percentage (Value t) \<noteq> Fin 0 \<or> Quantity (Value t) \<noteq> None)"

definition exceeds100MiB :: "float64 \<Rightarrow> bool" where
  "exceeds100MiB c = (case c of Fin r \<Rightarrow> 104857600 < r | Inf s \<Rightarrow> False | NaN \<Rightarrow> False)"



definition throttlingEntry :: "int \<Rightarrow> string \<times> throttlingMetric \<Rightarrow> EntityMetric" where
  "throttlingEntry timestamp idtm =
     EntityResourceMetric ContainerType (fst idtm) metrics_VCPUThrottling metrics_Used
       (Cumulative [ThrottlingCumulative (cpuThrottled (snd idtm)) (cpuTotal (snd idtm)) timestamp])"

definition allTotalZero :: "(string \<times> throttlingMetric) list \<Rightarrow> bool" where
  "allTotalZero parsed = (\<forall>idtm\<in>set parsed. cpuTotal (snd idtm) = Fin 0)"

text \<open>
  \<open>imageFsReadable\<close> holds of node statistics in which the image file system, when it
  reports its used bytes, also reports its available bytes; \<open>summaryReadable\<close> says so
  of the summary that the client returns for a node, when it returns one, and
  \<open>thresholdsReadable\<close> says of the thresholds that the client returns for a node, when it
  returns some, that \<open>quantityPresent\<close> holds of each. \<open>collect\<close>
  names the last part of \<open>scrapeKubelet\<close>, from the fetch of the thresholds on, as a
  function of the sink at that point. \<open>cpuFreqEntry\<close> and \<open>cacheUsedEntry\<close> are the two
  state metrics of a node.
\<close>

definition imageFsReadable :: "NodeStats \<Rightarrow> bool" where
  "imageFsReadable nodeStats =
     (Option.bind (Option.bind (Runtime nodeStats) ImageFs) UsedBytes = None \<or>
      Option.bind (Option.bind (Runtime nodeStats) ImageFs) AvailableBytes \<noteq> None)"

definition summaryReadable :: "KubeletClient \<Rightarrow> Node \<Rightarrow> bool" where
  "summaryReadable kc node =
     (case GetNodeIPForMonitor kc node of
        Inl err \<Rightarrow> True
      | Inr ip \<Rightarrow>
          (case GetSummary kc ip (node_Name node) of
             Inl err \<Rightarrow> True
           | Inr summary \<Rightarrow> imageFsReadable (summary_Node summary)))"

definition thresholdsReadable :: "KubeletClient \<Rightarrow> Node \<Rightarrow> bool" where
  "thresholdsReadable kc node =
     (case GetNodeIPForMonitor kc node of
        Inl err \<Rightarrow> True
      | Inr ip \<Rightarrow>
          (case GetKubeletThresholds kc ip (node_Name node) of
             Inl err \<Rightarrow> True
           | Inr ths \<Rightarrow> \<forall>t\<in>set ths. quantityPresent t))"

definition collect ::
  "KubeletClient \<Rightarrow> bool \<Rightarrow> Node \<Rightarrow> string \<Rightarrow> Summary \<Rightarrow> EntityMetricSink
     \<Rightarrow> fault + EntityMetricSink" where
  "collect kc full node ip summary sink2 =
     bindF (parseNodeStats full (summary_Node summary)
              (case GetKubeletThresholds kc ip (node_Name node) of
                 Inl err \<Rightarrow> [] | Inr ths \<Rightarrow> ths)
              (Now kc node)
              (generateThrottlingMetrics
                 (case GetCPUThrottlingMetrics kc ip (node_Name node) of
                    Inl err \<Rightarrow> [] | Inr fams \<Rightarrow> fams)
                 (Now kc node) sink2))
       (\<lambda>sink4. Inr (parsePodStats full (PersistentVolumesEnabled kc) (summary_Pods summary)
                       (Now kc node) sink4))"

definition cpuFreqEntry :: "Node \<Rightarrow> float64 \<Rightarrow> EntityMetric" where
  "cpuFreqEntry node f = EntityStateMetric NodeType (NodeKeyFunc node) metrics_CpuFrequency f"

definition cacheUsedEntry :: "Node \<Rightarrow> EntityMetric" where
  "cacheUsedEntry node = EntityStateMetric NodeType (NodeKeyFunc node) ''NodeCacheUsed'' (Fin 1)"

text \<open>
  Example inputs: a summary with CPU and memory statistics only, and a client that serves
  it for every node but \<open>b\<close>, whose summary fetch fails.
\<close>

definition example_summary :: "string \<Rightarrow> Summary" where
  "example_summary name =
     \<lparr>summary_Node =
        \<lparr>NodeName = name,
         node_CPU = Some \<lparr>UsageNanoCores = Some 2000000000\<rparr>,
         node_Memory = Some \<lparr>WorkingSetBytes = Some 2147483648,
                              mem_AvailableBytes = Some 6442450944\<rparr>,
         Fs = None, Runtime = None\<rparr>,
      summary_Pods = []\<rparr>"

definition example_client :: "bool \<Rightarrow> KubeletClient" where
  "example_client cached =
     \<lparr>GetNodeCpuFrequency = (\<lambda>node. Inr (Fin 2000)),
      GetSummary = (\<lambda>ip name. if name = ''b'' then Inl ''connection refused''
                               else Inr (example_summary name)),
      HasCacheBeenUsed = (\<lambda>ip. cached),
      GetKubeletThresholds = (\<lambda>ip name. Inr []),
      GetCPUThrottlingMetrics = (\<lambda>ip name. Inr []),
      GetNodeIPForMonitor = (\<lambda>node. Inr (node_Name node)),
      PersistentVolumesEnabled = True,
      Now = (\<lambda>node. 1000)\<rparr>"

section \<open>Properties\<close>

subsection \<open>Threshold derivation\<close>

lemma fne_zero_iff: "fne x (Fin 0) \<longleftrightarrow> x \<noteq> Fin 0"
  by (cases x) auto

text \<open>
  Claim C10 says that for every threshold value of percentage 0 the function returns
  \<open>Quantity.Value() * 100 / capacity\<close>. A threshold given as a percentage carries no
  quantity; when its percentage is exactly 0 the function calls \<open>Value\<close> on the nil
  pointer and panics.
\<close>

theorem C10_counterexample:
  "Percentage \<lparr>Quantity = None, Percentage = Fin 0\<rparr> = Fin 0 \<and>
   GetThresholdPercentile \<lparr>Quantity = None, Percentage = Fin 0\<rparr> (Fin 50)
     = Inl NilPointerDereference"
  by (simp add: GetThresholdPercentile_def Quantity_Value_def deref_def bindF_def)

text \<open>
  Claim C10, amended. \<open>GetThresholdPercentile\<close> tells the two kinds of signal apart by
  the \<open>Percentage\<close> field alone. When it is not zero the result is \<open>Percentage * 100\<close>,
  whatever the \<open>Quantity\<close> field holds, nil included. When it is zero the \<open>Quantity\<close>
  field is read: the result is \<open>Quantity.Value() * 100 / capacity\<close> when the field is not
  nil, and the call panics with a nil dereference when it is.
\<close>

theorem C10_GetThresholdPercentile_by_Percentage:
  "(Percentage v \<noteq> Fin 0 \<longrightarrow>
      GetThresholdPercentile v capacity = Inr (fmul (Percentage v) (Fin 100)) \<and>
      GetThresholdPercentile (v\<lparr>Quantity := q\<rparr>) capacity = GetThresholdPercentile v capacity) \<and>
   (Percentage v = Fin 0 \<longrightarrow>
      GetThresholdPercentile v capacity =
        (case Quantity v of
           None \<Rightarrow> Inl NilPointerDereference
         | Some n \<Rightarrow> Inr (fdiv (fmul (float64_of_int64 n) (Fin 100)) capacity)))"
  by (simp add: GetThresholdPercentile_def fne_zero_iff Quantity_Value_def deref_def bindF_def
        split: option.splits)

text \<open>
  Instances of the amended C10: a signal of 25 percent, with and without a quantity, and a
  signal of quantity 10 on a capacity of 50.
\<close>

theorem C10_GetThresholdPercentile_by_Percentage_witness:
  "Percentage \<lparr>Quantity = None, Percentage = Fin (1 / 4)\<rparr> \<noteq> Fin 0 \<and>
   GetThresholdPercentile \<lparr>Quantity = None, Percentage = Fin (1 / 4)\<rparr> (Fin 50) = Inr (Fin 25) \<and>
   GetThresholdPercentile \<lparr>Quantity = Some 7, Percentage = Fin (1 / 4)\<rparr> (Fin 50) = Inr (Fin 25) \<and>
   Percentage \<lparr>Quantity = Some 10, Percentage = Fin 0\<rparr> = Fin 0 \<and>
   GetThresholdPercentile \<lparr>Quantity = Some 10, Percentage = Fin 0\<rparr> (Fin 50) = Inr (Fin 20)"
  using C10_GetThresholdPercentile_by_Percentage
          [of "\<lparr>Quantity = None, Percentage = Fin (1 / 4)\<rparr>" "Fin 50" "Some 7"]
        C10_GetThresholdPercentile_by_Percentage
          [of "\<lparr>Quantity = Some 10, Percentage = Fin 0\<rparr>" "Fin 50" None]
  by (simp add: float64_of_int64_def)

lemma kept_iff: "\<not> (fle x (Fin 0) \<or> fge x (Fin 100)) \<longleftrightarrow> inRange x \<or> x = NaN"
  by (cases x) (auto simp: fge_def inRange_def)

lemma default_inRange:
  "inRange (fdiv (Fin (104857600 * 100)) c) \<longleftrightarrow> exceeds100MiB c"
  by (cases c) (auto simp: inRange_def exceeds100MiB_def field_simps)

lemma thresholdStep_faults:
  "isl (thresholdStep mc rc ic t acc) \<longleftrightarrow> \<not> quantityPresent t"
proof -
  obtain m r i where "acc = (m, r, i)"
    using prod_cases3 by blast
  then show ?thesis
    by (cases "Signal t"; cases "Quantity (Value t)")
       (simp_all add: thresholdStep_def quantityPresent_def GetThresholdPercentile_def
          fne_zero_iff Quantity_Value_def deref_def bindF_def)
qed

lemma thresholdStep_fault:
  assumes "thresholdStep mc rc ic t acc = Inl f"
  shows "f = NilPointerDereference"
proof -
  obtain m r i where "acc = (m, r, i)"
    using prod_cases3 by blast
  with assms show ?thesis
    by (cases "Signal t"; cases "Quantity (Value t)")
       (auto simp: thresholdStep_def GetThresholdPercentile_def
          Quantity_Value_def deref_def bindF_def split: if_splits)
qed

lemma foldF_thresholdStep_faults:
  "isl (foldF (thresholdStep mc rc ic) ths acc) \<longleftrightarrow> (\<exists>t\<in>set ths. \<not> quantityPresent t)"
proof (induction ths arbitrary: acc)
  case Nil
  then show ?case by simp
next
  case (Cons t ths)
  show ?case
  proof (cases "thresholdStep mc rc ic t acc")
    case (Inl f)
    then have "\<not> quantityPresent t"
      using thresholdStep_faults [of mc rc ic t acc] by simp
    with Inl show ?thesis by simp
  next
    case (Inr acc1)
    then have "quantityPresent t"
      using thresholdStep_faults [of mc rc ic t acc] by simp
    with Inr Cons [of acc1] show ?thesis by simp
  qed
qed

lemma foldF_thresholdStep_fault:
  "foldF (thresholdStep mc rc ic) ths acc = Inl f \<Longrightarrow> f = NilPointerDereference"
  by (induction ths arbitrary: acc) (auto split: sum.splits dest: thresholdStep_fault)

lemma parseThresholdValues_faults:
  "isl (parseThresholdValues key mc rc ic ths sink) \<longleftrightarrow> (\<exists>t\<in>set ths. \<not> quantityPresent t)"
  using foldF_thresholdStep_faults [of mc rc ic ths "(Fin 0, Fin 0, Fin 0)"]
  by (cases "foldF (thresholdStep mc rc ic) ths (Fin 0, Fin 0, Fin 0)")
     (simp_all add: parseThresholdValues_def bindF_def Let_def split: prod.splits)

lemma parseThresholdValues_fault:
  "parseThresholdValues key mc rc ic ths sink = Inl f \<Longrightarrow> f = NilPointerDereference"
  by (auto simp: parseThresholdValues_def bindF_def Let_def
        split: sum.splits prod.splits dest: foldF_thresholdStep_fault)

text \<open>
  Claim C1 says that each of the three emitted thresholds lies strictly between 0 and 100.
  Three inputs on which it does not hold. On a node of 50 MiB of memory with no memory
  threshold configured, the emitted memory threshold is the default
  \<open>100 MiB * 100 / capacity\<close>, which is 200. On a node that reports no root file system
  capacity, with a root file system threshold of quantity 0, the computed threshold is
  \<open>0 / 0\<close>, a NaN, which passes both range tests and is emitted. With a memory threshold of
  percentage 0, which carries no quantity, the call panics and nothing is emitted.
\<close>

theorem C1_counterexample:
  "parseThresholdValues ''n'' (Fin 52428800) (Fin 1000) (Fin 1000)
     [\<lparr>Signal = SignalNodeFsAvailable, Value = \<lparr>Quantity = None, Percentage = Fin (1 / 8)\<rparr>\<rparr>,
      \<lparr>Signal = SignalImageFsAvailable, Value = \<lparr>Quantity = None, Percentage = Fin (1 / 4)\<rparr>\<rparr>]
     []
   = Inr [EntityResourceMetric NodeType ''n'' metrics_Memory metrics_Threshold (Scalar (Fin 200)),
      EntityResourceMetric NodeType ''n'' metrics_VStorage metrics_Threshold
        (Scalar (Fin (25 / 2))),
      EntityResourceMetric NodeType ''n-imagefs'' metrics_VStorage metrics_Threshold
        (Scalar (Fin 25))] \<and>
   \<not> inRange (Fin 200) \<and>
   parseThresholdValues ''n'' (Fin 8589934592) (Fin 0) (Fin 1000)
     [\<lparr>Signal = SignalNodeFsAvailable, Value = \<lparr>Quantity = Some 0, Percentage = Fin 0\<rparr>\<rparr>,
      \<lparr>Signal = SignalImageFsAvailable, Value = \<lparr>Quantity = None, Percentage = Fin (1 / 4)\<rparr>\<rparr>]
     []
   = Inr [EntityResourceMetric NodeType ''n'' metrics_Memory metrics_Threshold
        (Scalar (Fin (625 / 512))),
      EntityResourceMetric NodeType ''n'' metrics_VStorage metrics_Threshold (Scalar NaN),
      EntityResourceMetric NodeType ''n-imagefs'' metrics_VStorage metrics_Threshold
        (Scalar (Fin 25))] \<and>
   \<not> inRange NaN \<and>
   parseThresholdValues ''n'' (Fin 8589934592) (Fin 1000) (Fin 1000)
     [\<lparr>Signal = SignalMemoryAvailable, Value = \<lparr>Quantity = None, Percentage = Fin 0\<rparr>\<rparr>]
     []
   = Inl NilPointerDereference"
  by (simp add: parseThresholdValues_def thresholdStep_def GetThresholdPercentile_def
        AddNewMetricEntries_def Base2MegabytesToBytes_def fge_def inRange_def bindF_def
        Quantity_Value_def deref_def float64_of_int64_def)

text \<open>
  Claim C1, amended. \<open>parseThresholdValues\<close> panics exactly when a threshold of one of
  the three signals has percentage 0 and no quantity. Otherwise let \<open>m0\<close>, \<open>r0\<close> and
  \<open>i0\<close> be the memory, root file system and image file system thresholds that the loop
  computes. Three threshold entries are emitted. The memory entry holds \<open>m0\<close> when that
  lies strictly between 0 and 100 or is NaN, and the default
  \<open>100 MiB * 100 / memoryCapacity\<close> otherwise; it lies strictly between 0 and 100 exactly
  when \<open>m0\<close> does, or \<open>m0\<close> is not NaN and the capacity is a number above 100 MiB. The
  root file system entry lies strictly between 0 and 100 whenever \<open>r0\<close> is not NaN. When
  \<open>i0\<close> lies strictly between 0 and 100, the image file system entry holds \<open>i0\<close>, and
  the root file system entry holds \<open>r0\<close> when that is in range or NaN and 10 otherwise.
\<close>

theorem C1_parseThresholdValues_ranges:
  "(case foldF (thresholdStep memoryCapacity rootfsCapacity imagefsCapacity) ths
           (Fin 0, Fin 0, Fin 0) of
      Inl f \<Rightarrow>
        parseThresholdValues key memoryCapacity rootfsCapacity imagefsCapacity ths sink
          = Inl NilPointerDereference \<and>
        (\<exists>t\<in>set ths. \<not> quantityPresent t)
    | Inr (m0, r0, i0) \<Rightarrow>
        (\<forall>t\<in>set ths. quantityPresent t) \<and>
        (\<exists>m r i.
           parseThresholdValues key memoryCapacity rootfsCapacity imagefsCapacity ths sink =
             Inr (sink @
               [EntityResourceMetric NodeType key metrics_Memory metrics_Threshold (Scalar m),
                EntityResourceMetric NodeType key metrics_VStorage metrics_Threshold (Scalar r),
                EntityResourceMetric NodeType (key @ ''-imagefs'') metrics_VStorage
                  metrics_Threshold (Scalar i)]) \<and>
           m = (if inRange m0 \<or> m0 = NaN then m0
                else fdiv (Fin (104857600 * 100)) memoryCapacity) \<and>
           (inRange m \<longleftrightarrow> inRange m0 \<or> m0 \<noteq> NaN \<and> exceeds100MiB memoryCapacity) \<and>
           (r0 \<noteq> NaN \<longrightarrow> inRange r) \<and>
           (inRange i0 \<longrightarrow> i = i0 \<and> r = (if inRange r0 \<or> r0 = NaN then r0 else Fin 10))))"
proof (cases "foldF (thresholdStep memoryCapacity rootfsCapacity imagefsCapacity) ths
           (Fin 0, Fin 0, Fin 0)")
  case (Inl f)
  then have "f = NilPointerDereference"
    by (rule foldF_thresholdStep_fault)
  moreover have "\<exists>t\<in>set ths. \<not> quantityPresent t"
    using foldF_thresholdStep_faults
      [of memoryCapacity rootfsCapacity imagefsCapacity ths "(Fin 0, Fin 0, Fin 0)"] Inl
    by simp
  ultimately show ?thesis
    using Inl by (simp add: parseThresholdValues_def bindF_def)
next
  case (Inr acc)
  obtain m0 r0 i0 where acc: "acc = (m0, r0, i0)"
    by (cases acc) auto
  have qp: "\<forall>t\<in>set ths. quantityPresent t"
    using foldF_thresholdStep_faults
      [of memoryCapacity rootfsCapacity imagefsCapacity ths "(Fin 0, Fin 0, Fin 0)"] Inr
    by simp
  have nn: "\<not> inRange NaN" "inRange (Fin 10)" "inRange (Fin 15)"
    by (simp_all add: inRange_def)
  have tests: "(fle x (Fin 0) \<or> fge x (Fin 100)) \<longleftrightarrow> \<not> (inRange x \<or> x = NaN)" for x
    using kept_iff [of x] by blast
  show ?thesis
    unfolding Inr acc
    using qp nn default_inRange [of memoryCapacity]
    by (auto simp: parseThresholdValues_def Inr acc bindF_def AddNewMetricEntries_def
          Let_def tests Base2MegabytesToBytes_def)
qed

text \<open>
  An instance of the amended C1: a node of 8 GiB of memory, the two file system
  thresholds configured at 12.5 and 25 percent.
\<close>

theorem C1_parseThresholdValues_ranges_witness:
  "foldF (thresholdStep (Fin 8589934592) (Fin 1000) (Fin 1000))
     [\<lparr>Signal = SignalNodeFsAvailable, Value = \<lparr>Quantity = None, Percentage = Fin (1 / 8)\<rparr>\<rparr>,
      \<lparr>Signal = SignalImageFsAvailable, Value = \<lparr>Quantity = None, Percentage = Fin (1 / 4)\<rparr>\<rparr>]
     (Fin 0, Fin 0, Fin 0) = Inr (Fin 0, Fin (25 / 2), Fin 25) \<and>
   parseThresholdValues ''n'' (Fin 8589934592) (Fin 1000) (Fin 1000)
     [\<lparr>Signal = SignalNodeFsAvailable, Value = \<lparr>Quantity = None, Percentage = Fin (1 / 8)\<rparr>\<rparr>,
      \<lparr>Signal = SignalImageFsAvailable, Value = \<lparr>Quantity = None, Percentage = Fin (1 / 4)\<rparr>\<rparr>]
     []
   = Inr [EntityResourceMetric NodeType ''n'' metrics_Memory metrics_Threshold
        (Scalar (Fin (625 / 512))),
      EntityResourceMetric NodeType ''n'' metrics_VStorage metrics_Threshold
        (Scalar (Fin (25 / 2))),
      EntityResourceMetric NodeType ''n-imagefs'' metrics_VStorage metrics_Threshold
        (Scalar (Fin 25))] \<and>
   exceeds100MiB (Fin 8589934592) \<and>
   inRange (Fin (625 / 512)) \<and> inRange (Fin (25 / 2)) \<and> inRange (Fin 25)"
proof -
  have comp: "foldF (thresholdStep (Fin 8589934592) (Fin 1000) (Fin 1000))
     [\<lparr>Signal = SignalNodeFsAvailable, Value = \<lparr>Quantity = None, Percentage = Fin (1 / 8)\<rparr>\<rparr>,
      \<lparr>Signal = SignalImageFsAvailable, Value = \<lparr>Quantity = None, Percentage = Fin (1 / 4)\<rparr>\<rparr>]
     (Fin 0, Fin 0, Fin 0) = Inr (Fin 0, Fin (25 / 2), Fin 25)"
    by (simp add: thresholdStep_def GetThresholdPercentile_def bindF_def)
  from C1_parseThresholdValues_ranges [where memoryCapacity = "Fin 8589934592"
      and rootfsCapacity = "Fin 1000" and imagefsCapacity = "Fin 1000"
      and ths = "[\<lparr>Signal = SignalNodeFsAvailable,
                   Value = \<lparr>Quantity = None, Percentage = Fin (1 / 8)\<rparr>\<rparr>,
                  \<lparr>Signal = SignalImageFsAvailable,
                   Value = \<lparr>Quantity = None, Percentage = Fin (1 / 4)\<rparr>\<rparr>]"
      and key = "''n''" and sink = "[]"]
  show ?thesis
    unfolding comp
    by (auto simp: inRange_def exceeds100MiB_def)
qed

subsection \<open>The throttling correlator\<close>

lemma names_differ: "ContainerCPUThrottledTotal \<noteq> ContainerCPUTotal"
  by (simp add: ContainerCPUThrottledTotal_def ContainerCPUTotal_def)





lemma parseMetric_other_name:
  "metricName \<noteq> ContainerCPUTotal \<Longrightarrow>
   parseMetric metricName metric parsed = parseMetric ContainerCPUThrottledTotal metric parsed"
  by (simp add: parseMetric_def names_differ Let_def split: option.splits prod.splits)

lemma parseFamiliesFrom_append:
  "parseFamiliesFrom (pre @ rest) parsed =
     (if \<forall>nf\<in>set pre. Type (snd nf) = MetricType_COUNTER
      then parseFamiliesFrom rest (parseFamiliesFrom pre parsed)
      else parseFamiliesFrom pre parsed)"
  by (induction pre parsed rule: parseFamiliesFrom.induct) auto

lemma parseFamiliesFrom_other_name:
  assumes "metricName \<noteq> ContainerCPUTotal"
  shows "parseFamiliesFrom (pre @ (metricName, f) # rest) parsed =
         parseFamiliesFrom (pre @ (ContainerCPUThrottledTotal, f) # rest) parsed"
proof -
  have "fold (parseMetric metricName) ms s = fold (parseMetric ContainerCPUThrottledTotal) ms s"
    for ms s
    by (induction ms arbitrary: s) (simp_all add: parseMetric_other_name [OF assms])
  then show ?thesis
    by (simp add: parseFamiliesFrom_append)
qed

lemma set_update_subset: "set (AList.update k v al) \<subseteq> insert (k, v) (set al)"
  by (induction al) auto

lemma parseMetric_total0:
  assumes "metricName \<noteq> ContainerCPUTotal" "allTotalZero parsed"
  shows "allTotalZero (parseMetric metricName metric parsed)"
proof -
  have upd: "allTotalZero (AList.update k v parsed)" if "cpuTotal v = Fin 0" for k v
    using that assms(2) set_update_subset [of k v parsed]
    by (auto simp: allTotalZero_def)
  have look: "cpuTotal t = Fin 0" if "map_of parsed k = Some t" for k t
    using map_of_SomeD [OF that] assms(2) by (auto simp: allTotalZero_def)
  show ?thesis
    using assms
    by (auto simp: parseMetric_def Let_def intro!: upd dest: look
          split: option.splits prod.splits)
qed

lemma fold_parseMetric_total0:
  "metricName \<noteq> ContainerCPUTotal \<Longrightarrow> allTotalZero parsed \<Longrightarrow>
   allTotalZero (fold (parseMetric metricName) ms parsed)"
  by (induction ms arbitrary: parsed) (simp_all add: parseMetric_total0)

lemma parseFamiliesFrom_total0:
  "ContainerCPUTotal \<notin> fst ` set fams \<Longrightarrow> allTotalZero parsed \<Longrightarrow>
   allTotalZero (parseFamiliesFrom fams parsed)"
  by (induction fams parsed rule: parseFamiliesFrom.induct)
     (auto simp: fold_parseMetric_total0)

lemma fold_genThrottling:
  "fold (\<lambda>(metricID, tm). genThrottlingMetrics ContainerType metricID (cpuThrottled tm)
           (cpuTotal tm) ts) xs sink = sink @ map (throttlingEntry ts) xs"
  by (induction xs arbitrary: sink)
     (auto simp: genThrottlingMetrics_def AddNewMetricEntries_def throttlingEntry_def)

lemma generateThrottlingMetrics_entries:
  "generateThrottlingMetrics fams ts sink =
     sink @ map (throttlingEntry ts) (parseMetricFamilies fams)"
  by (simp add: generateThrottlingMetrics_def fold_genThrottling)



text \<open>
  Claim C3 says that no throttling entry is generated when the total-periods family is
  absent. With the throttled-periods family alone, one point of value 5, an entry is
  generated, and its total is 0.
\<close>

theorem C3_counterexample:
  "ContainerCPUTotal \<notin> fst ` set
     [(ContainerCPUThrottledTotal,
       \<lparr>Type = MetricType_COUNTER,
        Metric = [Some \<lparr>Label = [(''container'', ''c''), (''namespace'', ''ns''), (''pod'', ''p'')],
                        Counter = Some (Fin 5)\<rparr>]\<rparr>)] \<and>
   generateThrottlingMetrics
     [(ContainerCPUThrottledTotal,
       \<lparr>Type = MetricType_COUNTER,
        Metric = [Some \<lparr>Label = [(''container'', ''c''), (''namespace'', ''ns''), (''pod'', ''p'')],
                        Counter = Some (Fin 5)\<rparr>]\<rparr>)] 1000 []
     = [EntityResourceMetric ContainerType ''ns/p/c'' metrics_VCPUThrottling metrics_Used
          (Cumulative [ThrottlingCumulative (Fin 5) (Fin 0) 1000])]"
  by (simp add: generateThrottlingMetrics_def parseMetricFamilies_def parseMetric_def
        labelStep_def Let_def Counter_GetValue_def names_differ genThrottlingMetrics_def
        AddNewMetricEntries_def names_differ [symmetric])

text \<open>
  Claim C3, amended. \<open>generateThrottlingMetrics\<close> adds one throttling entry for every
  identity of the correlated map, whether or not both counters were reported for it; when
  the total-periods family is absent, the total of each of these entries is 0.
\<close>

theorem C3_generateThrottlingMetrics_every_identity:
  "generateThrottlingMetrics fams ts sink =
     sink @ map (throttlingEntry ts) (parseMetricFamilies fams) \<and>
   (ContainerCPUTotal \<notin> fst ` set fams \<longrightarrow> allTotalZero (parseMetricFamilies fams))"
proof -
  have "allTotalZero []"
    by (simp add: allTotalZero_def)
  then show ?thesis
    by (simp add: generateThrottlingMetrics_entries parseMetricFamilies_def
          parseFamiliesFrom_total0)
qed

text \<open>An instance of the amended C3.\<close>

theorem C3_generateThrottlingMetrics_every_identity_witness:
  "ContainerCPUTotal \<notin> fst ` set
     [(ContainerCPUThrottledTotal,
       \<lparr>Type = MetricType_COUNTER,
        Metric = [Some \<lparr>Label = [(''container'', ''c''), (''namespace'', ''ns''), (''pod'', ''p'')],
                        Counter = Some (Fin 5)\<rparr>]\<rparr>)] \<and>
   allTotalZero (parseMetricFamilies
     [(ContainerCPUThrottledTotal,
       \<lparr>Type = MetricType_COUNTER,
        Metric = [Some \<lparr>Label = [(''container'', ''c''), (''namespace'', ''ns''), (''pod'', ''p'')],
                        Counter = Some (Fin 5)\<rparr>]\<rparr>)]) \<and>
   parseMetricFamilies
     [(ContainerCPUThrottledTotal,
       \<lparr>Type = MetricType_COUNTER,
        Metric = [Some \<lparr>Label = [(''container'', ''c''), (''namespace'', ''ns''), (''pod'', ''p'')],
                        Counter = Some (Fin 5)\<rparr>]\<rparr>)]
     = [(''ns/p/c'', \<lparr>cpuThrottled = Fin 5, cpuTotal = Fin 0\<rparr>)]"
  using C3_generateThrottlingMetrics_every_identity [of
      "[(ContainerCPUThrottledTotal,
         \<lparr>Type = MetricType_COUNTER,
          Metric = [Some \<lparr>Label = [(''container'', ''c''), (''namespace'', ''ns''), (''pod'', ''p'')],
                          Counter = Some (Fin 5)\<rparr>]\<rparr>)]" 1000 "[]"]
  by (simp add: parseMetricFamilies_def parseMetric_def labelStep_def Let_def
        Counter_GetValue_def names_differ names_differ [symmetric])

text \<open>
  Claim C4 says that a family of another name changes no identity's metric. A third
  family, visited after the two named ones, overwrites \<open>cpuThrottled\<close>: 7 instead of 5.
\<close>

theorem C4_counterexample:
  "''container_cpu_usage_seconds_total'' \<noteq> ContainerCPUTotal \<and>
   ''container_cpu_usage_seconds_total'' \<noteq> ContainerCPUThrottledTotal \<and>
   parseMetricFamilies
     [(ContainerCPUTotal,
       \<lparr>Type = MetricType_COUNTER,
        Metric = [Some \<lparr>Label = [(''container'', ''c''), (''namespace'', ''ns''), (''pod'', ''p'')],
                        Counter = Some (Fin 10)\<rparr>]\<rparr>),
      (ContainerCPUThrottledTotal,
       \<lparr>Type = MetricType_COUNTER,
        Metric = [Some \<lparr>Label = [(''container'', ''c''), (''namespace'', ''ns''), (''pod'', ''p'')],
                        Counter = Some (Fin 5)\<rparr>]\<rparr>),
      (''container_cpu_usage_seconds_total'',
       \<lparr>Type = MetricType_COUNTER,
        Metric = [Some \<lparr>Label = [(''container'', ''c''), (''namespace'', ''ns''), (''pod'', ''p'')],
                        Counter = Some (Fin 7)\<rparr>]\<rparr>)]
     = [(''ns/p/c'', \<lparr>cpuThrottled = Fin 7, cpuTotal = Fin 10\<rparr>)] \<and>
   parseMetricFamilies
     [(ContainerCPUTotal,
       \<lparr>Type = MetricType_COUNTER,
        Metric = [Some \<lparr>Label = [(''container'', ''c''), (''namespace'', ''ns''), (''pod'', ''p'')],
                        Counter = Some (Fin 10)\<rparr>]\<rparr>),
      (ContainerCPUThrottledTotal,
       \<lparr>Type = MetricType_COUNTER,
        Metric = [Some \<lparr>Label = [(''container'', ''c''), (''namespace'', ''ns''), (''pod'', ''p'')],
                        Counter = Some (Fin 5)\<rparr>]\<rparr>)]
     = [(''ns/p/c'', \<lparr>cpuThrottled = Fin 5, cpuTotal = Fin 10\<rparr>)]"
  by (simp add: parseMetricFamilies_def parseMetric_def labelStep_def Let_def
        Counter_GetValue_def ContainerCPUTotal_def ContainerCPUThrottledTotal_def)

text \<open>
  Claim C4, amended. Only the total-periods family is told apart by its name: a family of
  any other name is processed exactly as the throttled-periods family is, wherever it
  stands in the input.
\<close>

theorem C4_other_family_as_throttled:
  "metricName \<noteq> ContainerCPUTotal \<Longrightarrow>
   parseMetricFamilies (pre @ (metricName, f) # rest) =
   parseMetricFamilies (pre @ (ContainerCPUThrottledTotal, f) # rest)"
  by (simp add: parseMetricFamilies_def parseFamiliesFrom_other_name)

text \<open>An instance of the amended C4.\<close>

theorem C4_other_family_as_throttled_witness:
  "''container_cpu_usage_seconds_total'' \<noteq> ContainerCPUTotal \<and>
   parseMetricFamilies
     ([(ContainerCPUTotal,
        \<lparr>Type = MetricType_COUNTER,
         Metric = [Some \<lparr>Label = [(''container'', ''c''), (''namespace'', ''ns''), (''pod'', ''p'')],
                         Counter = Some (Fin 10)\<rparr>]\<rparr>)] @
      (''container_cpu_usage_seconds_total'',
       \<lparr>Type = MetricType_COUNTER,
        Metric = [Some \<lparr>Label = [(''container'', ''c''), (''namespace'', ''ns''), (''pod'', ''p'')],
                        Counter = Some (Fin 7)\<rparr>]\<rparr>) # [])
     = [(''ns/p/c'', \<lparr>cpuThrottled = Fin 7, cpuTotal = Fin 10\<rparr>)]"
  using C4_other_family_as_throttled [of "''container_cpu_usage_seconds_total''"
      "[(ContainerCPUTotal,
         \<lparr>Type = MetricType_COUNTER,
          Metric = [Some \<lparr>Label = [(''container'', ''c''), (''namespace'', ''ns''), (''pod'', ''p'')],
                          Counter = Some (Fin 10)\<rparr>]\<rparr>)]"
      "\<lparr>Type = MetricType_COUNTER,
        Metric = [Some \<lparr>Label = [(''container'', ''c''), (''namespace'', ''ns''), (''pod'', ''p'')],
                        Counter = Some (Fin 7)\<rparr>]\<rparr>" "[]"]
  by (simp add: parseMetricFamilies_def parseMetric_def labelStep_def Let_def
        Counter_GetValue_def ContainerCPUTotal_def ContainerCPUThrottledTotal_def)

subsection \<open>Every generator appends to the sink\<close>

lemma fold_append_sink:
  assumes "\<And>x s t. f x (s @ t) = s @ f x t"
  shows "fold f xs (s @ t) = s @ fold f xs t"
  by (induction xs arbitrary: t) (simp_all add: assms)

lemma parseThresholdValues_append:
  "parseThresholdValues key mc rc ic ths (s @ t) =
     (case parseThresholdValues key mc rc ic ths t of Inl f \<Rightarrow> Inl f | Inr e \<Rightarrow> Inr (s @ e))"
  by (cases "foldF (thresholdStep mc rc ic) ths (Fin 0, Fin 0, Fin 0)")
     (simp_all add: parseThresholdValues_def bindF_def AddNewMetricEntries_def Let_def
        split: prod.splits)

lemma parseThresholdValues_prefix:
  assumes "parseThresholdValues key mc rc ic ths sink = Inr e"
  shows "\<exists>sfx. e = sink @ sfx"
  using parseThresholdValues_append [of key mc rc ic ths sink "[]"] assms
  by (auto split: sum.splits)

lemma parseThresholdValues_returns:
  "(\<exists>e. parseThresholdValues key mc rc ic ths sink = Inr e) \<longleftrightarrow>
   (\<forall>t\<in>set ths. quantityPresent t)"
  using parseThresholdValues_faults [of key mc rc ic ths sink]
  by (cases "parseThresholdValues key mc rc ic ths sink") simp_all

lemma generateThrottlingMetrics_append:
  "generateThrottlingMetrics fams ts (s @ t) = s @ generateThrottlingMetrics fams ts t"
  by (simp add: generateThrottlingMetrics_entries)

lemma parseNodeStats_append:
  "parseNodeStats full ns ths ts (s @ t) =
     (case parseNodeStats full ns ths ts t of Inl f \<Rightarrow> Inl f | Inr e \<Rightarrow> Inr (s @ e))"
  unfolding parseNodeStats_def Let_def bindF_def deref_def genFSMetrics_def genUsedMetrics_def
    AddNewMetricEntries_def
  by (simp add: parseThresholdValues_append [of _ _ _ _ _ s] split: option.splits)

lemma containerStep_append:
  "containerStep pid ts c (a, b, s @ t) =
     (case containerStep pid ts c (a, b, t) of (a', b', e) \<Rightarrow> (a', b', s @ e))"
  by (simp add: containerStep_def Let_def genUsedMetrics_def genRequestUsedMetrics_def
        AddNewMetricEntries_def split: option.splits)

lemma fold_containerStep_append:
  "fold (containerStep pid ts) cs (a, b, s @ t) =
     (case fold (containerStep pid ts) cs (a, b, t) of (a', b', e) \<Rightarrow> (a', b', s @ e))"
proof (induction cs arbitrary: a b t)
  case Nil
  then show ?case by simp
next
  case (Cons c cs)
  obtain a1 b1 e1 where s1: "containerStep pid ts c (a, b, t) = (a1, b1, e1)"
    by (cases "containerStep pid ts c (a, b, t)") auto
  then have "containerStep pid ts c (a, b, s @ t) = (a1, b1, s @ e1)"
    by (simp add: containerStep_append)
  with s1 show ?case
    using Cons [of a1 b1 e1] by simp
qed

lemma parseContainerStats_append:
  "parseContainerStats pod ts (s @ t) =
     (case parseContainerStats pod ts t of (a, b, e) \<Rightarrow> (a, b, s @ e))"
  by (simp add: parseContainerStats_def fold_containerStep_append)

lemma parseVolumeStats_append:
  "parseVolumeStats vs key (s @ t) = s @ parseVolumeStats vs key t"
  unfolding parseVolumeStats_def
  by (rule fold_append_sink) (simp add: genPVMetrics_def AddNewMetricEntries_def)

lemma podStep_append:
  "podStep full pv ts pod (s @ t) = s @ podStep full pv ts pod t"
proof -
  obtain a b e where pc: "parseContainerStats pod ts t = (a, b, e)"
    by (cases "parseContainerStats pod ts t") auto
  then have pc': "parseContainerStats pod ts (s @ t) = (a, b, s @ e)"
    by (simp add: parseContainerStats_append)
  show ?thesis
    unfolding podStep_def pc pc' Let_def genFSMetrics_def genNumConsumersUsedMetrics_def
      genUsedMetrics_def AddNewMetricEntries_def
    by (simp add: parseVolumeStats_append [symmetric])
qed

lemma parsePodStats_append:
  "parsePodStats full pv pods ts (s @ t) = s @ parsePodStats full pv pods ts t"
  unfolding parsePodStats_def
  by (rule fold_append_sink) (rule podStep_append)

lemma sum_case_append:
  "(case (case r of Inl f \<Rightarrow> Inl f | Inr e \<Rightarrow> Inr (s @ e)) of Inl f \<Rightarrow> Inl f | Inr e \<Rightarrow> Inr (g e))
   = (case r of Inl f \<Rightarrow> Inl f | Inr e \<Rightarrow> Inr (g (s @ e)))"
  by (cases r) auto

lemma scrape_tail_append:
  "bindF (parseNodeStats full ns ths ts (generateThrottlingMetrics fams ts (s @ t)))
     (\<lambda>sink4. Inr (parsePodStats full pv pods ts sink4)) =
   (case bindF (parseNodeStats full ns ths ts (generateThrottlingMetrics fams ts t))
           (\<lambda>sink4. Inr (parsePodStats full pv pods ts sink4)) of
      Inl f \<Rightarrow> Inl f | Inr e \<Rightarrow> Inr (s @ e))"
  by (cases "parseNodeStats full ns ths ts (generateThrottlingMetrics fams ts t)")
     (simp_all add: bindF_def generateThrottlingMetrics_append parseNodeStats_append
        parsePodStats_append)

subsection \<open>One scrape\<close>

lemma collect_append:
  "collect kc full node ip summary (s @ t) =
     (case collect kc full node ip summary t of Inl f \<Rightarrow> Inl f | Inr e \<Rightarrow> Inr (s @ e))"
  unfolding collect_def by (rule scrape_tail_append)

lemma scrape_sampling_ip_fail:
  "GetNodeIPForMonitor kc node = Inl e \<Longrightarrow> scrapeKubelet kc False node sink = Inr sink"
  by (simp add: scrapeKubelet_def)

lemma scrape_sampling_summary_fail:
  "GetNodeIPForMonitor kc node = Inr ip \<Longrightarrow> GetSummary kc ip (node_Name node) = Inl e \<Longrightarrow>
   scrapeKubelet kc False node sink = Inr sink"
  by (simp add: scrapeKubelet_def)

lemma scrape_sampling_cached:
  "GetNodeIPForMonitor kc node = Inr ip \<Longrightarrow> GetSummary kc ip (node_Name node) = Inr summary \<Longrightarrow>
   HasCacheBeenUsed kc ip \<Longrightarrow> scrapeKubelet kc False node sink = Inr sink"
  by (simp add: scrapeKubelet_def)

lemma scrape_sampling_collect:
  "GetNodeIPForMonitor kc node = Inr ip \<Longrightarrow> GetSummary kc ip (node_Name node) = Inr summary \<Longrightarrow>
   \<not> HasCacheBeenUsed kc ip \<Longrightarrow>
   scrapeKubelet kc False node sink = collect kc False node ip summary sink"
  by (simp add: scrapeKubelet_def collect_def Let_def)

lemma scrape_full_freq_fail:
  "GetNodeCpuFrequency kc node = Inl e \<Longrightarrow> scrapeKubelet kc True node sink = Inr sink"
  by (simp add: scrapeKubelet_def)

lemma scrape_full_ip_fail:
  "GetNodeCpuFrequency kc node = Inr f \<Longrightarrow> GetNodeIPForMonitor kc node = Inl e \<Longrightarrow>
   scrapeKubelet kc True node sink = Inr (sink @ [cpuFreqEntry node f])"
  by (simp add: scrapeKubelet_def parseNodeCpuFreq_def AddNewMetricEntries_def cpuFreqEntry_def)

lemma scrape_full_summary_fail:
  "GetNodeCpuFrequency kc node = Inr f \<Longrightarrow> GetNodeIPForMonitor kc node = Inr ip \<Longrightarrow>
   GetSummary kc ip (node_Name node) = Inl e \<Longrightarrow>
   scrapeKubelet kc True node sink = Inr (sink @ [cpuFreqEntry node f])"
  by (simp add: scrapeKubelet_def parseNodeCpuFreq_def AddNewMetricEntries_def cpuFreqEntry_def)

lemma scrape_full_collect:
  "GetNodeCpuFrequency kc node = Inr f \<Longrightarrow> GetNodeIPForMonitor kc node = Inr ip \<Longrightarrow>
   GetSummary kc ip (node_Name node) = Inr summary \<Longrightarrow>
   scrapeKubelet kc True node sink =
     collect kc True node ip summary
       (sink @ cpuFreqEntry node f # (if HasCacheBeenUsed kc ip then [cacheUsedEntry node] else []))"
  by (simp add: scrapeKubelet_def collect_def Let_def parseNodeCpuFreq_def
        AddNewMetricEntries_def cpuFreqEntry_def cacheUsedEntry_def)

lemma scrapeKubelet_append:
  "scrapeKubelet kc full node (s @ t) =
     (case scrapeKubelet kc full node t of Inl f \<Rightarrow> Inl f | Inr e \<Rightarrow> Inr (s @ e))"
proof (cases full)
  case False
  show ?thesis
  proof (cases "GetNodeIPForMonitor kc node")
    case (Inl e)
    with False show ?thesis by (simp add: scrape_sampling_ip_fail)
  next
    case ip: (Inr ip)
    show ?thesis
    proof (cases "GetSummary kc ip (node_Name node)")
      case (Inl e)
      with False ip show ?thesis by (simp add: scrape_sampling_summary_fail)
    next
      case (Inr summary)
      with False ip show ?thesis
        by (cases "HasCacheBeenUsed kc ip")
           (simp_all add: scrape_sampling_cached scrape_sampling_collect collect_append)
    qed
  qed
next
  case True
  show ?thesis
  proof (cases "GetNodeCpuFrequency kc node")
    case (Inl e)
    with True show ?thesis by (simp add: scrape_full_freq_fail)
  next
    case fr: (Inr f)
    show ?thesis
    proof (cases "GetNodeIPForMonitor kc node")
      case (Inl e)
      with True fr show ?thesis by (simp add: scrape_full_ip_fail)
    next
      case ip: (Inr ip)
      show ?thesis
      proof (cases "GetSummary kc ip (node_Name node)")
        case (Inl e)
        with True fr ip show ?thesis by (simp add: scrape_full_summary_fail)
      next
        case (Inr summary)
        with True fr ip show ?thesis
          by (simp add: scrape_full_collect collect_append)
      qed
    qed
  qed
qed

lemma parseNodeStats_fault_iff:
  "(\<exists>e. parseNodeStats full ns ths ts sink = Inr e) \<longleftrightarrow>
   imageFsReadable ns \<and> (full \<longrightarrow> (\<forall>t\<in>set ths. quantityPresent t))"
  unfolding parseNodeStats_def Let_def bindF_def deref_def imageFsReadable_def
  by (auto simp: parseThresholdValues_returns split: option.splits)

lemma parseNodeStats_fault:
  "parseNodeStats full ns ths ts sink = Inl f \<Longrightarrow> f = NilPointerDereference"
  unfolding parseNodeStats_def Let_def bindF_def deref_def
  by (auto split: option.splits if_splits sum.splits dest: parseThresholdValues_fault)

lemma collect_readable:
  assumes "imageFsReadable (summary_Node summary)"
    and "full \<longrightarrow>
         (\<forall>t\<in>set (case GetKubeletThresholds kc ip (node_Name node) of
                     Inl err \<Rightarrow> [] | Inr ths \<Rightarrow> ths). quantityPresent t)"
  shows "\<exists>e. collect kc full node ip summary sink = Inr e"
proof -
  obtain e where "parseNodeStats full (summary_Node summary)
              (case GetKubeletThresholds kc ip (node_Name node) of
                 Inl err \<Rightarrow> [] | Inr ths \<Rightarrow> ths)
              (Now kc node)
              (generateThrottlingMetrics
                 (case GetCPUThrottlingMetrics kc ip (node_Name node) of
                    Inl err \<Rightarrow> [] | Inr fams \<Rightarrow> fams)
                 (Now kc node) sink) = Inr e"
    using assms parseNodeStats_fault_iff by blast
  then show ?thesis
    by (simp add: collect_def bindF_def)
qed

lemma scrapeKubelet_readable:
  assumes "summaryReadable kc node" and "full \<longrightarrow> thresholdsReadable kc node"
  shows "\<exists>e. scrapeKubelet kc full node sink = Inr e"
proof (cases "GetNodeIPForMonitor kc node")
  case (Inl e)
  then show ?thesis
    by (cases full; cases "GetNodeCpuFrequency kc node")
       (simp_all add: scrape_sampling_ip_fail scrape_full_freq_fail scrape_full_ip_fail)
next
  case ip: (Inr ip)
  show ?thesis
  proof (cases "GetSummary kc ip (node_Name node)")
    case (Inl e)
    with ip show ?thesis
      by (cases full; cases "GetNodeCpuFrequency kc node")
         (simp_all add: scrape_sampling_summary_fail scrape_full_freq_fail
            scrape_full_summary_fail)
  next
    case (Inr summary)
    with ip assms have rd: "imageFsReadable (summary_Node summary)"
      by (simp add: summaryReadable_def)
    from ip assms have th: "full \<longrightarrow>
         (\<forall>t\<in>set (case GetKubeletThresholds kc ip (node_Name node) of
                     Inl err \<Rightarrow> [] | Inr ths \<Rightarrow> ths). quantityPresent t)"
      by (auto simp: thresholdsReadable_def split: sum.splits)
    have cT: "\<exists>e. collect kc True node ip summary s = Inr e" if full for s
      using collect_readable [OF rd, of True kc ip node s] th that by simp
    have cF: "\<exists>e. collect kc False node ip summary s = Inr e" for s
      using collect_readable [OF rd, of False kc ip node s] by simp
    from ip Inr show ?thesis
      by (cases full; cases "GetNodeCpuFrequency kc node"; cases "HasCacheBeenUsed kc ip")
         (simp_all add: scrape_sampling_cached scrape_sampling_collect scrape_full_freq_fail
            scrape_full_collect cT cF)
  qed
qed

lemma task_open:
  "\<not> closed ch \<Longrightarrow> buffered ch = 0 \<Longrightarrow>
   task kc full n (ch, sink) =
     (case scrapeKubelet kc full n sink of Inl f \<Rightarrow> Inl f | Inr sink' \<Rightarrow> Inr (ch, sink'))"
  by (simp add: task_def)

lemma task_token:
  "\<not> closed ch \<Longrightarrow> buffered ch = Suc k \<Longrightarrow>
   task kc full n (ch, sink) = Inr (ch\<lparr>buffered := k\<rparr>, sink)"
  by (simp add: task_def)

lemma scrapeKubelet_from_empty:
  "scrapeKubelet kc full node sink =
     (case scrapeKubelet kc full node [] of Inl f \<Rightarrow> Inl f | Inr e \<Rightarrow> Inr (sink @ e))"
  using scrapeKubelet_append [of kc full node sink "[]"] by simp

lemma foldF_task_open:
  assumes "\<not> closed ch" "buffered ch = 0"
  shows "foldF (task kc full) ns (ch, sink) = Inr (ch', sink') \<Longrightarrow>
         ch' = ch \<and> (\<exists>es. list_all2 (\<lambda>n e. scrapeKubelet kc full n [] = Inr e) ns es \<and>
                           sink' = sink @ concat es)"
proof (induction ns arbitrary: sink)
  case Nil
  then show ?case by simp
next
  case (Cons n ns)
  from Cons.prems obtain e where e: "scrapeKubelet kc full n [] = Inr e"
    and rest: "foldF (task kc full) ns (ch, sink @ e) = Inr (ch', sink')"
    using scrapeKubelet_from_empty [of kc full n sink]
    by (auto simp: task_open [OF assms] split: sum.splits)
  from Cons.IH [OF rest] obtain es where
    "ch' = ch" "list_all2 (\<lambda>n e. scrapeKubelet kc full n [] = Inr e) ns es"
    "sink' = (sink @ e) @ concat es"
    by blast
  with e show ?case
    by (intro conjI exI [of _ "e # es"]) simp_all
qed

text \<open>
  Claim C9 says that the parsers never fault on absent optional fields. \<open>parseNodeStats\<close>
  does: on node statistics whose image file system reports its used bytes and no
  available bytes, it dereferences the nil pointer.
\<close>

theorem C9_parseNodeStats_nil_dereference:
  "parseNodeStats False
     \<lparr>NodeName = ''n'', node_CPU = None, node_Memory = None, Fs = None,
      Runtime = Some \<lparr>ImageFs = Some \<lparr>CapacityBytes = Some 1000, UsedBytes = Some 400,
                                     AvailableBytes = None\<rparr>\<rparr>\<rparr>
     [] 1000 []
   = Inl NilPointerDereference"
  by (simp add: parseNodeStats_def bindF_def deref_def)

lemma collect_client_cache:
  "collect (kc\<lparr>HasCacheBeenUsed := h\<rparr>) full node ip summary sink =
   collect kc full node ip summary sink"
  by (simp add: collect_def)

text \<open>
  Claim C5. Take a scrape in which the client is asked whether the last response came
  from its cache (the node address and the summary were obtained) and answers yes. In
  sampling mode the scrape returns at once and leaves the sink as it was. In full mode,
  the CPU frequency having been fetched, the scrape ends exactly as the scrape with a
  client that answers no does, faults included, but for one more entry: the
  \<^verbatim>\<open>NodeCacheUsed\<close> state metric of the node, added right after the frequency metric.
\<close>

theorem C5_cache_hit:
  assumes ip: "GetNodeIPForMonitor kc node = Inr ip"
    and summary: "GetSummary kc ip (node_Name node) = Inr summary"
    and cached: "HasCacheBeenUsed kc ip"
  shows "scrapeKubelet kc False node sink = Inr sink \<and>
    (\<forall>f. GetNodeCpuFrequency kc node = Inr f \<longrightarrow>
       scrapeKubelet kc True node sink =
         (case scrapeKubelet (kc\<lparr>HasCacheBeenUsed := \<lambda>ip. False\<rparr>) True node sink of
            Inl flt \<Rightarrow> Inl flt
          | Inr s \<Rightarrow>
              Inr (take (Suc (length sink)) s @
                   EntityStateMetric NodeType (NodeKeyFunc node) ''NodeCacheUsed'' (Fin 1) #
                   drop (Suc (length sink)) s)))"
proof (intro conjI allI impI)
  show "scrapeKubelet kc False node sink = Inr sink"
    using assms by (rule scrape_sampling_cached)
next
  fix f
  assume fr: "GetNodeCpuFrequency kc node = Inr f"
  let ?kc = "kc\<lparr>HasCacheBeenUsed := \<lambda>ip. False\<rparr>"
  have cachedrun: "scrapeKubelet kc True node sink =
      (case collect kc True node ip summary [] of
         Inl flt \<Rightarrow> Inl flt
       | Inr e \<Rightarrow> Inr ((sink @ [cpuFreqEntry node f, cacheUsedEntry node]) @ e))"
    using scrape_full_collect [OF fr ip summary, of sink] cached
      collect_append [of kc True node ip summary "sink @ [cpuFreqEntry node f, cacheUsedEntry node]" "[]"]
    by simp
  have plainrun: "scrapeKubelet ?kc True node sink =
      (case collect kc True node ip summary [] of
         Inl flt \<Rightarrow> Inl flt
       | Inr e \<Rightarrow> Inr ((sink @ [cpuFreqEntry node f]) @ e))"
    using scrape_full_collect [of ?kc node f ip summary sink] fr ip summary
      collect_append [of kc True node ip summary "sink @ [cpuFreqEntry node f]" "[]"]
    by (simp add: collect_client_cache)
  show "scrapeKubelet kc True node sink =
         (case scrapeKubelet ?kc True node sink of
            Inl flt \<Rightarrow> Inl flt
          | Inr s \<Rightarrow>
              Inr (take (Suc (length sink)) s @
                   EntityStateMetric NodeType (NodeKeyFunc node) ''NodeCacheUsed'' (Fin 1) #
                   drop (Suc (length sink)) s))"
    unfolding cachedrun plainrun
    by (cases "collect kc True node ip summary []") (simp_all add: cacheUsedEntry_def)
qed

text \<open>The definitions that evaluate a scrape and a cycle on the example inputs.\<close>

lemmas eval_defs = scrapeKubelet_def thresholdStep_def GetThresholdPercentile_def
  Quantity_Value_def float64_of_int64_def example_client_def example_summary_def parseNodeCpuFreq_def
  AddNewMetricEntries_def generateThrottlingMetrics_def parseMetricFamilies_def parseNodeStats_def
  parsePodStats_def bindF_def deref_def readOr0_def genUsedMetrics_def genFSMetrics_def
  parseThresholdValues_def NodeKeyFunc_def NodeStatsKeyFunc_def metrics_CpuFrequency_def
  MetricNanoToUnit_def Base2BytesToKilobytes_def Base2MegabytesToBytes_def float64_of_uint64_def
  fge_def Let_def

lemmas cycle_defs = RetrieveResourceStat_def ReceiveTask_def reset_def NewKubeletMonitor_def
  make_chan_def NewEntityMetricSink_def task_def close_chan_def Stop_def

text \<open>An instance of C5: node \<open>a\<close> of the example client, served from the cache.\<close>

theorem C5_cache_hit_witness:
  "GetNodeIPForMonitor (example_client True) \<lparr>node_Name = ''a''\<rparr> = Inr ''a'' \<and>
   GetSummary (example_client True) ''a'' ''a'' = Inr (example_summary ''a'') \<and>
   HasCacheBeenUsed (example_client True) ''a'' \<and>
   GetNodeCpuFrequency (example_client True) \<lparr>node_Name = ''a''\<rparr> = Inr (Fin 2000) \<and>
   scrapeKubelet (example_client True) False \<lparr>node_Name = ''a''\<rparr> [] = Inr [] \<and>
   scrapeKubelet (example_client True) True \<lparr>node_Name = ''a''\<rparr> [] =
     Inr [EntityStateMetric NodeType ''a'' ''CpuFrequency'' (Fin 2000),
          EntityStateMetric NodeType ''a'' ''NodeCacheUsed'' (Fin 1),
          EntityResourceMetric NodeType ''a'' metrics_CPU metrics_Used (Points [Point (Fin 2) 1000]),
          EntityResourceMetric NodeType ''a'' metrics_Memory metrics_Used
            (Points [Point (Fin 2097152) 1000]),
          EntityResourceMetric NodeType ''a'' metrics_VStorage metrics_Capacity (Scalar (Fin 0)),
          EntityResourceMetric NodeType ''a'' metrics_VStorage metrics_Available (Scalar (Fin 0)),
          EntityResourceMetric NodeType ''a-imagefs'' metrics_VStorage metrics_Capacity
            (Scalar (Fin 0)),
          EntityResourceMetric NodeType ''a-imagefs'' metrics_VStorage metrics_Available
            (Scalar (Fin 0)),
          EntityResourceMetric NodeType ''a'' metrics_Memory metrics_Threshold
            (Scalar (Fin (625 / 512))),
          EntityResourceMetric NodeType ''a'' metrics_VStorage metrics_Threshold (Scalar (Fin 15)),
          EntityResourceMetric NodeType ''a-imagefs'' metrics_VStorage metrics_Threshold
            (Scalar (Fin 0))]"
proof -
  have ip: "GetNodeIPForMonitor (example_client True) \<lparr>node_Name = ''a''\<rparr> = Inr ''a''"
    by (simp add: example_client_def)
  have summary: "GetSummary (example_client True) ''a'' (node_Name \<lparr>node_Name = ''a''\<rparr>)
      = Inr (example_summary ''a'')"
    by (simp add: example_client_def)
  have cached: "HasCacheBeenUsed (example_client True) ''a''"
    by (simp add: example_client_def)
  have fr: "GetNodeCpuFrequency (example_client True) \<lparr>node_Name = ''a''\<rparr> = Inr (Fin 2000)"
    by (simp add: example_client_def)
  have plain: "scrapeKubelet ((example_client True)\<lparr>HasCacheBeenUsed := \<lambda>ip. False\<rparr>) True
      \<lparr>node_Name = ''a''\<rparr> [] =
     Inr [EntityStateMetric NodeType ''a'' ''CpuFrequency'' (Fin 2000),
          EntityResourceMetric NodeType ''a'' metrics_CPU metrics_Used (Points [Point (Fin 2) 1000]),
          EntityResourceMetric NodeType ''a'' metrics_Memory metrics_Used
            (Points [Point (Fin 2097152) 1000]),
          EntityResourceMetric NodeType ''a'' metrics_VStorage metrics_Capacity (Scalar (Fin 0)),
          EntityResourceMetric NodeType ''a'' metrics_VStorage metrics_Available (Scalar (Fin 0)),
          EntityResourceMetric NodeType ''a-imagefs'' metrics_VStorage metrics_Capacity
            (Scalar (Fin 0)),
          EntityResourceMetric NodeType ''a-imagefs'' metrics_VStorage metrics_Available
            (Scalar (Fin 0)),
          EntityResourceMetric NodeType ''a'' metrics_Memory metrics_Threshold
            (Scalar (Fin (625 / 512))),
          EntityResourceMetric NodeType ''a'' metrics_VStorage metrics_Threshold (Scalar (Fin 15)),
          EntityResourceMetric NodeType ''a-imagefs'' metrics_VStorage metrics_Threshold
            (Scalar (Fin 0))]"
    by (simp add: eval_defs)
  from C5_cache_hit [OF ip summary cached, of "[]"] fr ip summary cached show ?thesis
    by (simp add: plain NodeKeyFunc_def)
qed

subsection \<open>The cycle\<close>

lemma collect_fault:
  "collect kc full node ip summary sink = Inl f \<Longrightarrow> f = NilPointerDereference"
  by (auto simp: collect_def bindF_def split: sum.splits dest: parseNodeStats_fault)

lemma scrapeKubelet_fault:
  assumes "scrapeKubelet kc full node sink = Inl f"
  shows "f = NilPointerDereference"
proof (cases "GetNodeIPForMonitor kc node")
  case (Inl e)
  with assms show ?thesis
    by (cases full; cases "GetNodeCpuFrequency kc node")
       (simp_all add: scrape_sampling_ip_fail scrape_full_freq_fail scrape_full_ip_fail)
next
  case ip: (Inr ip)
  show ?thesis
  proof (cases "GetSummary kc ip (node_Name node)")
    case (Inl e)
    with ip assms show ?thesis
      by (cases full; cases "GetNodeCpuFrequency kc node")
         (simp_all add: scrape_sampling_summary_fail scrape_full_freq_fail
            scrape_full_summary_fail)
  next
    case (Inr summary)
    with ip assms show ?thesis
      by (cases full; cases "GetNodeCpuFrequency kc node"; cases "HasCacheBeenUsed kc ip")
         (auto simp: scrape_sampling_cached scrape_sampling_collect scrape_full_freq_fail
            scrape_full_collect dest: collect_fault)
  qed
qed

lemma ReceiveTask_fields:
  "nodeList (ReceiveTask m0 nodes) = nodes"
  "metricSink (ReceiveTask m0 nodes) = []"
  "stopCh (ReceiveTask m0 nodes) = make_chan"
  "isFullDiscovery (ReceiveTask m0 nodes) = isFullDiscovery m0"
  by (simp_all add: ReceiveTask_def reset_def NewEntityMetricSink_def)

lemma foldF_task_outcome:
  "\<not> closed ch \<Longrightarrow>
   (\<exists>ch' sink'. foldF (task kc full) ns (ch, sink) = Inr (ch', sink') \<and> \<not> closed ch') \<or>
   (foldF (task kc full) ns (ch, sink) = Inl NilPointerDereference \<and>
    (\<exists>n\<in>set ns. \<not> summaryReadable kc n \<or> full \<and> \<not> thresholdsReadable kc n))"
proof (induction ns arbitrary: ch sink)
  case Nil
  then show ?case by simp
next
  case (Cons n ns)
  show ?case
  proof (cases "buffered ch")
    case (Suc k)
    have "\<not> closed (ch\<lparr>buffered := k\<rparr>)"
      using Cons.prems by simp
    from Cons.IH [OF this, of sink] Suc Cons.prems show ?thesis
      by (auto simp: task_token)
  next
    case 0
    show ?thesis
    proof (cases "scrapeKubelet kc full n sink")
      case (Inl f)
      then have "f = NilPointerDereference"
        by (rule scrapeKubelet_fault)
      moreover have "\<not> summaryReadable kc n \<or> full \<and> \<not> thresholdsReadable kc n"
        using scrapeKubelet_readable [of kc n full sink] Inl by auto
      ultimately show ?thesis
        using 0 Cons.prems Inl by (simp add: task_open)
    next
      case (Inr e)
      with Cons.IH [OF Cons.prems, of e] 0 Cons.prems show ?thesis
        by (auto simp: task_open)
    qed
  qed
qed

text \<open>
  Claim C7 says that a cycle on a node list that is not empty returns a nil error. In
  full discovery, with one node, every fetch succeeds and the thresholds hold a memory
  signal of percentage 0, which carries no quantity: the task panics in
  \<open>GetThresholdPercentile\<close>, and nothing is returned.
\<close>

theorem C7_counterexample:
  "[\<lparr>node_Name = ''a''\<rparr>] \<noteq> [] \<and>
   GetKubeletThresholds
     ((example_client False)\<lparr>GetKubeletThresholds := \<lambda>ip name.
        Inr [\<lparr>Signal = SignalMemoryAvailable,
              Value = \<lparr>Quantity = None, Percentage = Fin 0\<rparr>\<rparr>]\<rparr>) ''a'' ''a''
     = Inr [\<lparr>Signal = SignalMemoryAvailable, Value = \<lparr>Quantity = None, Percentage = Fin 0\<rparr>\<rparr>] \<and>
   RetrieveResourceStat
     ((example_client False)\<lparr>GetKubeletThresholds := \<lambda>ip name.
        Inr [\<lparr>Signal = SignalMemoryAvailable,
              Value = \<lparr>Quantity = None, Percentage = Fin 0\<rparr>\<rparr>]\<rparr>)
     (ReceiveTask (NewKubeletMonitor True) [\<lparr>node_Name = ''a''\<rparr>]) [\<lparr>node_Name = ''a''\<rparr>]
   = Inl NilPointerDereference"
  by (simp add: eval_defs cycle_defs)

text \<open>
  Claim C7, amended. On a monitor that has received its task, \<open>RetrieveResourceStat\<close>
  returns an error if and only if the node list is empty. With a node list that is not
  empty it never returns an error, whatever the client's calls answer, failures included:
  it returns without error unless a task panics. A task panics only on data that was
  fetched, never on a failed fetch: on a summary that is not readable in the sense of
  \<open>imageFsReadable\<close>, or, in full discovery, on thresholds of which one has percentage 0
  and no quantity. So the cycle returns without error whenever every fetched summary
  and, in full discovery, every fetched threshold list is readable.
\<close>

theorem C7_error_iff_empty_node_list:
  "((\<exists>e m'. RetrieveResourceStat kc (ReceiveTask m0 nodes) order = Inr (Some e, m'))
      \<longleftrightarrow> nodes = []) \<and>
   (nodes \<noteq> [] \<longrightarrow>
      (\<exists>m'. RetrieveResourceStat kc (ReceiveTask m0 nodes) order = Inr (None, m')) \<or>
      (RetrieveResourceStat kc (ReceiveTask m0 nodes) order = Inl NilPointerDereference \<and>
       (\<exists>n\<in>set order. \<not> summaryReadable kc n \<or>
                         isFullDiscovery m0 \<and> \<not> thresholdsReadable kc n))) \<and>
   (nodes \<noteq> [] \<and>
    (\<forall>n\<in>set order. summaryReadable kc n \<and>
                      (isFullDiscovery m0 \<longrightarrow> thresholdsReadable kc n)) \<longrightarrow>
      (\<exists>m'. RetrieveResourceStat kc (ReceiveTask m0 nodes) order = Inr (None, m')))"
proof -
  let ?m = "ReceiveTask m0 nodes"
  note fields = ReceiveTask_fields
  have op: "\<not> closed make_chan"
    by (simp add: make_chan_def)
  have iff: "(\<exists>e m'. RetrieveResourceStat kc ?m order = Inr (Some e, m')) \<longleftrightarrow> nodes = []"
    using op
    by (auto simp: RetrieveResourceStat_def fields bindF_def close_chan_def
          split: sum.splits if_splits)
  have out: "(\<exists>m'. RetrieveResourceStat kc ?m order = Inr (None, m')) \<or>
       (RetrieveResourceStat kc ?m order = Inl NilPointerDereference \<and>
        (\<exists>n\<in>set order. \<not> summaryReadable kc n \<or>
                          isFullDiscovery m0 \<and> \<not> thresholdsReadable kc n))" if "nodes \<noteq> []"
    using foldF_task_outcome [OF op, of kc "isFullDiscovery m0" order "[]"] that
    by (auto simp: RetrieveResourceStat_def fields bindF_def close_chan_def)
  from iff out show ?thesis
    by blast
qed

text \<open>
  An instance of C7: two nodes of which one fails its summary fetch, and the empty list.
\<close>

theorem C7_error_iff_empty_node_list_witness:
  "summaryReadable (example_client False) \<lparr>node_Name = ''a''\<rparr> \<and>
   summaryReadable (example_client False) \<lparr>node_Name = ''b''\<rparr> \<and>
   GetSummary (example_client False) ''b'' ''b'' = Inl ''connection refused'' \<and>
   RetrieveResourceStat (example_client False)
     (ReceiveTask (NewKubeletMonitor False) [\<lparr>node_Name = ''a''\<rparr>, \<lparr>node_Name = ''b''\<rparr>])
     [\<lparr>node_Name = ''b''\<rparr>, \<lparr>node_Name = ''a''\<rparr>]
   = Inr (None,
       \<lparr>nodeList = [\<lparr>node_Name = ''a''\<rparr>, \<lparr>node_Name = ''b''\<rparr>],
        metricSink =
          [EntityResourceMetric NodeType ''a'' metrics_CPU metrics_Used
             (Points [Point (Fin 2) 1000]),
           EntityResourceMetric NodeType ''a'' metrics_Memory metrics_Used
             (Points [Point (Fin 2097152) 1000])],
        stopCh = \<lparr>buffered = 0, closed = True\<rparr>, isFullDiscovery = False\<rparr>) \<and>
   RetrieveResourceStat (example_client False) (ReceiveTask (NewKubeletMonitor False) []) []
   = Inr (Some ''Invalid nodeList or empty nodeList. Finish Immediately...'',
       \<lparr>nodeList = [], metricSink = [], stopCh = \<lparr>buffered = 0, closed = True\<rparr>,
        isFullDiscovery = False\<rparr>)"
  using C7_error_iff_empty_node_list [of "example_client False" "NewKubeletMonitor False"
      "[\<lparr>node_Name = ''a''\<rparr>, \<lparr>node_Name = ''b''\<rparr>]"
      "[\<lparr>node_Name = ''b''\<rparr>, \<lparr>node_Name = ''a''\<rparr>]"]
    C7_error_iff_empty_node_list [of "example_client False" "NewKubeletMonitor False" "[]" "[]"]
  by (simp add: eval_defs cycle_defs summaryReadable_def imageFsReadable_def)

lemma parseNodeStats_node_entry:
  assumes "parseNodeStats full ns ths ts sink = Inr e"
  shows "\<exists>cpu. EntityResourceMetric NodeType (NodeStatsKeyFunc ns) metrics_CPU metrics_Used
           (Points [Point cpu ts]) \<in> set e"
  using assms
  unfolding parseNodeStats_def Let_def bindF_def deref_def genFSMetrics_def genUsedMetrics_def
    AddNewMetricEntries_def
  by (auto split: option.splits if_splits dest!: parseThresholdValues_prefix)

lemma collect_node_entry:
  assumes "collect kc full node ip summary sink = Inr es"
  shows "\<exists>cpu. EntityResourceMetric NodeType (NodeStatsKeyFunc (summary_Node summary)) metrics_CPU
           metrics_Used (Points [Point cpu (Now kc node)]) \<in> set es"
proof -
  from assms obtain s4 where
    s4: "parseNodeStats full (summary_Node summary)
              (case GetKubeletThresholds kc ip (node_Name node) of
                 Inl err \<Rightarrow> [] | Inr ths \<Rightarrow> ths)
              (Now kc node)
              (generateThrottlingMetrics
                 (case GetCPUThrottlingMetrics kc ip (node_Name node) of
                    Inl err \<Rightarrow> [] | Inr fams \<Rightarrow> fams)
                 (Now kc node) sink) = Inr s4"
    and es: "es = parsePodStats full (PersistentVolumesEnabled kc) (summary_Pods summary)
                    (Now kc node) s4"
    by (auto simp: collect_def bindF_def split: sum.splits)
  have "es = s4 @ parsePodStats full (PersistentVolumesEnabled kc) (summary_Pods summary)
                    (Now kc node) []"
    using parsePodStats_append [of _ _ _ _ s4 "[]"] es by simp
  with parseNodeStats_node_entry [OF s4] show ?thesis
    by auto
qed

lemma list_all2_contribution:
  "list_all2 P xs ys \<Longrightarrow> x \<in> set xs \<Longrightarrow> \<exists>y\<in>set ys. P x y"
  by (induction rule: list_all2_induct) auto

text \<open>
  Claim C6, amended. Let a cycle on a node list that is not empty return. Its sink is made
  of the contributions of the nodes, \<open>scrapeKubelet kc full n []\<close>, one per task, and holds
  the contribution of every node of the list. The contribution of a node whose summary
  fetch fails is empty in sampling mode; in full mode it is the CPU frequency metric of
  the node alone, or empty when the frequency fetch failed too. The contribution of a node
  whose address and summary are obtained, whose frequency is obtained in full mode and
  whose response is not served from the cache in sampling mode, holds the CPU-used entry
  of that node.
\<close>

theorem C6_sink_of_cycle:
  assumes ne: "nodes \<noteq> []"
    and sch: "schedule (ReceiveTask m0 nodes) order"
    and ret: "RetrieveResourceStat kc (ReceiveTask m0 nodes) order = Inr (err, m')"
  shows "(\<exists>es. list_all2 (\<lambda>n e. scrapeKubelet kc (isFullDiscovery m0) n [] = Inr e) order es \<and>
               metricSink m' = concat es) \<and>
    (\<forall>n\<in>set nodes. \<exists>e. scrapeKubelet kc (isFullDiscovery m0) n [] = Inr e \<and>
                            set e \<subseteq> set (metricSink m')) \<and>
    (\<forall>n ip e. GetNodeIPForMonitor kc n = Inr ip \<and> GetSummary kc ip (node_Name n) = Inl e \<longrightarrow>
       scrapeKubelet kc False n [] = Inr [] \<and>
       scrapeKubelet kc True n [] =
         Inr (case GetNodeCpuFrequency kc n of
                Inl err \<Rightarrow> []
              | Inr f \<Rightarrow> [EntityStateMetric NodeType (NodeKeyFunc n) metrics_CpuFrequency f])) \<and>
    (\<forall>n ip summary es.
       GetNodeIPForMonitor kc n = Inr ip \<and> GetSummary kc ip (node_Name n) = Inr summary \<and>
       (if isFullDiscovery m0 then \<exists>f. GetNodeCpuFrequency kc n = Inr f
        else \<not> HasCacheBeenUsed kc ip) \<and>
       scrapeKubelet kc (isFullDiscovery m0) n [] = Inr es \<longrightarrow>
       (\<exists>cpu. EntityResourceMetric NodeType (NodeStatsKeyFunc (summary_Node summary)) metrics_CPU
                metrics_Used (Points [Point cpu (Now kc n)]) \<in> set es))"
proof (intro conjI allI impI ballI)
  from ret ne obtain ch sink where
    run: "foldF (task kc (isFullDiscovery m0)) order (make_chan, []) = Inr (ch, sink)"
    and sink: "metricSink m' = sink"
    by (auto simp: RetrieveResourceStat_def ReceiveTask_def reset_def NewEntityMetricSink_def
          bindF_def split: sum.splits)
  have "\<not> closed make_chan" "buffered make_chan = 0"
    by (simp_all add: make_chan_def)
  from foldF_task_open [OF this run] sink
  obtain es where es: "list_all2 (\<lambda>n e. scrapeKubelet kc (isFullDiscovery m0) n [] = Inr e) order es"
    "metricSink m' = concat es"
    by auto
  then show "\<exists>es. list_all2 (\<lambda>n e. scrapeKubelet kc (isFullDiscovery m0) n [] = Inr e) order es \<and>
             metricSink m' = concat es"
    by auto
  fix n
  assume "n \<in> set nodes"
  with sch have "n \<in> set order"
    using mset_eq_setD [of order nodes] by (simp add: schedule_def ReceiveTask_def)
  from list_all2_contribution [OF es(1) this] es(2)
  show "\<exists>e. scrapeKubelet kc (isFullDiscovery m0) n [] = Inr e \<and> set e \<subseteq> set (metricSink m')"
    by auto
next
  fix n ip e
  assume a: "GetNodeIPForMonitor kc n = Inr ip \<and> GetSummary kc ip (node_Name n) = Inl e"
  then show "scrapeKubelet kc False n [] = Inr []"
    by (simp add: scrape_sampling_summary_fail)
  from a show "scrapeKubelet kc True n [] =
         Inr (case GetNodeCpuFrequency kc n of
                Inl err \<Rightarrow> []
              | Inr f \<Rightarrow> [EntityStateMetric NodeType (NodeKeyFunc n) metrics_CpuFrequency f])"
    by (cases "GetNodeCpuFrequency kc n")
       (simp_all add: scrape_full_freq_fail scrape_full_summary_fail cpuFreqEntry_def)
next
  fix n ip summary es
  assume a: "GetNodeIPForMonitor kc n = Inr ip \<and> GetSummary kc ip (node_Name n) = Inr summary \<and>
       (if isFullDiscovery m0 then \<exists>f. GetNodeCpuFrequency kc n = Inr f
        else \<not> HasCacheBeenUsed kc ip) \<and>
       scrapeKubelet kc (isFullDiscovery m0) n [] = Inr es"
  show "\<exists>cpu. EntityResourceMetric NodeType (NodeStatsKeyFunc (summary_Node summary)) metrics_CPU
                metrics_Used (Points [Point cpu (Now kc n)]) \<in> set es"
  proof (cases "isFullDiscovery m0")
    case True
    with a obtain f where "GetNodeCpuFrequency kc n = Inr f"
      by auto
    with a True obtain s2 where "collect kc True n ip summary s2 = Inr es"
      by (auto simp: scrape_full_collect)
    then show ?thesis
      by (rule collect_node_entry)
  next
    case False
    with a have "collect kc False n ip summary [] = Inr es"
      by (auto simp: scrape_sampling_collect)
    then show ?thesis
      by (rule collect_node_entry)
  qed
qed

text \<open>
  Claim C6 says that the sink has no entries for a node whose summary fetch fails, in
  either mode. In full mode the CPU frequency metric of the node is in the sink already
  when the summary is fetched.
\<close>

theorem C6_counterexample:
  "GetNodeIPForMonitor (example_client False) \<lparr>node_Name = ''b''\<rparr> = Inr ''b'' \<and>
   GetSummary (example_client False) ''b'' ''b'' = Inl ''connection refused'' \<and>
   RetrieveResourceStat (example_client False)
     (ReceiveTask (NewKubeletMonitor True) [\<lparr>node_Name = ''b''\<rparr>]) [\<lparr>node_Name = ''b''\<rparr>]
   = Inr (None,
       \<lparr>nodeList = [\<lparr>node_Name = ''b''\<rparr>],
        metricSink = [EntityStateMetric NodeType ''b'' ''CpuFrequency'' (Fin 2000)],
        stopCh = \<lparr>buffered = 0, closed = True\<rparr>, isFullDiscovery = True\<rparr>)"
  by (simp add: eval_defs cycle_defs)

text \<open>An instance of the amended C6: nodes \<open>a\<close> and \<open>b\<close>, task \<open>b\<close> first.\<close>

theorem C6_sink_of_cycle_witness:
  "[\<lparr>node_Name = ''a''\<rparr>, \<lparr>node_Name = ''b''\<rparr>] \<noteq> [] \<and>
   schedule (ReceiveTask (NewKubeletMonitor False) [\<lparr>node_Name = ''a''\<rparr>, \<lparr>node_Name = ''b''\<rparr>])
     [\<lparr>node_Name = ''b''\<rparr>, \<lparr>node_Name = ''a''\<rparr>] \<and>
   RetrieveResourceStat (example_client False)
     (ReceiveTask (NewKubeletMonitor False) [\<lparr>node_Name = ''a''\<rparr>, \<lparr>node_Name = ''b''\<rparr>])
     [\<lparr>node_Name = ''b''\<rparr>, \<lparr>node_Name = ''a''\<rparr>]
   = Inr (None,
       \<lparr>nodeList = [\<lparr>node_Name = ''a''\<rparr>, \<lparr>node_Name = ''b''\<rparr>],
        metricSink =
          [EntityResourceMetric NodeType ''a'' metrics_CPU metrics_Used
             (Points [Point (Fin 2) 1000]),
           EntityResourceMetric NodeType ''a'' metrics_Memory metrics_Used
             (Points [Point (Fin 2097152) 1000])],
        stopCh = \<lparr>buffered = 0, closed = True\<rparr>, isFullDiscovery = False\<rparr>) \<and>
   scrapeKubelet (example_client False) False \<lparr>node_Name = ''b''\<rparr> [] = Inr [] \<and>
   scrapeKubelet (example_client False) True \<lparr>node_Name = ''b''\<rparr> [] =
     Inr [EntityStateMetric NodeType ''b'' ''CpuFrequency'' (Fin 2000)] \<and>
   scrapeKubelet (example_client False) False \<lparr>node_Name = ''a''\<rparr> [] =
     Inr [EntityResourceMetric NodeType ''a'' metrics_CPU metrics_Used
            (Points [Point (Fin 2) 1000]),
          EntityResourceMetric NodeType ''a'' metrics_Memory metrics_Used
            (Points [Point (Fin 2097152) 1000])]"
proof -
  have ne: "[\<lparr>node_Name = ''a''\<rparr>, \<lparr>node_Name = ''b''\<rparr>] \<noteq> []"
    by simp
  have sch: "schedule
     (ReceiveTask (NewKubeletMonitor False) [\<lparr>node_Name = ''a''\<rparr>, \<lparr>node_Name = ''b''\<rparr>])
     [\<lparr>node_Name = ''b''\<rparr>, \<lparr>node_Name = ''a''\<rparr>]"
    by (simp add: schedule_def ReceiveTask_def)
  have ret: "RetrieveResourceStat (example_client False)
     (ReceiveTask (NewKubeletMonitor False) [\<lparr>node_Name = ''a''\<rparr>, \<lparr>node_Name = ''b''\<rparr>])
     [\<lparr>node_Name = ''b''\<rparr>, \<lparr>node_Name = ''a''\<rparr>]
   = Inr (None,
       \<lparr>nodeList = [\<lparr>node_Name = ''a''\<rparr>, \<lparr>node_Name = ''b''\<rparr>],
        metricSink =
          [EntityResourceMetric NodeType ''a'' metrics_CPU metrics_Used
             (Points [Point (Fin 2) 1000]),
           EntityResourceMetric NodeType ''a'' metrics_Memory metrics_Used
             (Points [Point (Fin 2097152) 1000])],
        stopCh = \<lparr>buffered = 0, closed = True\<rparr>, isFullDiscovery = False\<rparr>)"
    by (simp add: eval_defs cycle_defs)
  from C6_sink_of_cycle [OF ne sch ret] ne sch ret show ?thesis
    by (simp add: eval_defs)
qed

text \<open>
  Claim C8, amended. \<open>Stop\<close> puts one value in the stop channel, and one task receives
  it: the first to reach its \<^verbatim>\<open>select\<close>. When \<open>Stop\<close> is called before any task has
  done so, in every order \<open>n # rest\<close> of the tasks the task of \<open>n\<close> is a no-op and the
  others run as a cycle over \<open>rest\<close> that was never stopped. So the final sink is empty
  when the node list has a single node, and is the sink of that other cycle otherwise. The
  cycle returns without error in both cases.
\<close>

theorem C8_stop_cancels_one_task:
  assumes sch: "schedule (ReceiveTask m0 nodes) (n # rest)"
  shows "bindF (Stop (ReceiveTask m0 nodes)) (\<lambda>m1. RetrieveResourceStat kc m1 (n # rest)) =
     (if rest = []
      then Inr (None, (ReceiveTask m0 nodes)\<lparr>stopCh := \<lparr>buffered = 0, closed = True\<rparr>\<rparr>)
      else (case RetrieveResourceStat kc (ReceiveTask m0 rest) rest of
              Inl f \<Rightarrow> Inl f
            | Inr r \<Rightarrow> Inr (fst r, (snd r)\<lparr>nodeList := nodes\<rparr>))) \<and>
    (\<forall>err m'. bindF (Stop (ReceiveTask m0 nodes)) (\<lambda>m1. RetrieveResourceStat kc m1 (n # rest))
                 = Inr (err, m') \<longrightarrow> err = None)"
proof -
  from sch have ne: "nodes \<noteq> []"
    by (auto simp: schedule_def ReceiveTask_fields)
  let ?m1 = "(ReceiveTask m0 nodes)\<lparr>stopCh := \<lparr>buffered = Suc 0, closed = False\<rparr>\<rparr>"
  have stop: "Stop (ReceiveTask m0 nodes) = Inr ?m1"
    by (simp add: Stop_def ReceiveTask_fields make_chan_def)
  have first: "task kc full n (\<lparr>buffered = Suc 0, closed = False\<rparr>, []) = Inr (make_chan, [])" for full
    by (simp add: task_def make_chan_def)
  have lhs: "RetrieveResourceStat kc ?m1 (n # rest) =
      bindF (foldF (task kc (isFullDiscovery m0)) rest (make_chan, []))
        (\<lambda>st. case st of (ch, sink) \<Rightarrow>
           bindF (close_chan ch) (\<lambda>ch'. Inr (None, ?m1\<lparr>metricSink := sink, stopCh := ch'\<rparr>)))"
    using ne by (simp add: RetrieveResourceStat_def ReceiveTask_fields first)
  have start: "bindF (Stop (ReceiveTask m0 nodes)) (\<lambda>m1. RetrieveResourceStat kc m1 (n # rest)) =
      bindF (foldF (task kc (isFullDiscovery m0)) rest (make_chan, []))
        (\<lambda>st. case st of (ch, sink) \<Rightarrow>
           bindF (close_chan ch) (\<lambda>ch'. Inr (None, ?m1\<lparr>metricSink := sink, stopCh := ch'\<rparr>)))"
    by (simp only: stop bindF_def sum.case lhs)
  have noerr: "err = None"
    if "bindF (Stop (ReceiveTask m0 nodes)) (\<lambda>m1. RetrieveResourceStat kc m1 (n # rest))
          = Inr (err, m')" for err m'
    using that unfolding start
    by (auto simp: bindF_def split: sum.splits)
  have main: "bindF (Stop (ReceiveTask m0 nodes)) (\<lambda>m1. RetrieveResourceStat kc m1 (n # rest)) =
     (if rest = []
      then Inr (None, (ReceiveTask m0 nodes)\<lparr>stopCh := \<lparr>buffered = 0, closed = True\<rparr>\<rparr>)
      else (case RetrieveResourceStat kc (ReceiveTask m0 rest) rest of
              Inl f \<Rightarrow> Inl f
            | Inr r \<Rightarrow> Inr (fst r, (snd r)\<lparr>nodeList := nodes\<rparr>)))"
  proof (cases "rest = []")
    case True
    then show ?thesis
      unfolding start
      by (simp add: bindF_def close_chan_def make_chan_def ReceiveTask_def reset_def
            NewEntityMetricSink_def)
  next
    case False
    have rhs: "RetrieveResourceStat kc (ReceiveTask m0 rest) rest =
      bindF (foldF (task kc (isFullDiscovery m0)) rest (make_chan, []))
        (\<lambda>st. case st of (ch, sink) \<Rightarrow>
           bindF (close_chan ch)
             (\<lambda>ch'. Inr (None, (ReceiveTask m0 rest)\<lparr>metricSink := sink, stopCh := ch'\<rparr>)))"
      using False by (simp add: RetrieveResourceStat_def ReceiveTask_fields)
    show ?thesis
      unfolding start rhs
      by (simp add: False bindF_def close_chan_def ReceiveTask_def reset_def
            split: sum.splits prod.splits)
  qed
  from main noerr show ?thesis
    by blast
qed

text \<open>
  Claim C8 says that after \<open>Stop\<close> every task is a no-op and the final sink is empty.
  With two nodes, in both orders of the tasks, the second task scrapes its node.
\<close>

theorem C8_counterexample:
  "bindF (Stop (ReceiveTask (NewKubeletMonitor False)
            [\<lparr>node_Name = ''a''\<rparr>, \<lparr>node_Name = ''c''\<rparr>]))
     (\<lambda>m1. RetrieveResourceStat (example_client False) m1
             [\<lparr>node_Name = ''a''\<rparr>, \<lparr>node_Name = ''c''\<rparr>])
   = Inr (None,
       \<lparr>nodeList = [\<lparr>node_Name = ''a''\<rparr>, \<lparr>node_Name = ''c''\<rparr>],
        metricSink =
          [EntityResourceMetric NodeType ''c'' metrics_CPU metrics_Used
             (Points [Point (Fin 2) 1000]),
           EntityResourceMetric NodeType ''c'' metrics_Memory metrics_Used
             (Points [Point (Fin 2097152) 1000])],
        stopCh = \<lparr>buffered = 0, closed = True\<rparr>, isFullDiscovery = False\<rparr>) \<and>
   bindF (Stop (ReceiveTask (NewKubeletMonitor False)
            [\<lparr>node_Name = ''a''\<rparr>, \<lparr>node_Name = ''c''\<rparr>]))
     (\<lambda>m1. RetrieveResourceStat (example_client False) m1
             [\<lparr>node_Name = ''c''\<rparr>, \<lparr>node_Name = ''a''\<rparr>])
   = Inr (None,
       \<lparr>nodeList = [\<lparr>node_Name = ''a''\<rparr>, \<lparr>node_Name = ''c''\<rparr>],
        metricSink =
          [EntityResourceMetric NodeType ''a'' metrics_CPU metrics_Used
             (Points [Point (Fin 2) 1000]),
           EntityResourceMetric NodeType ''a'' metrics_Memory metrics_Used
             (Points [Point (Fin 2097152) 1000])],
        stopCh = \<lparr>buffered = 0, closed = True\<rparr>, isFullDiscovery = False\<rparr>)"
  by (simp add: eval_defs cycle_defs)

text \<open>
  Instances of the amended C8: a single node, and two nodes in full mode.
\<close>

theorem C8_stop_cancels_one_task_witness:
  "schedule (ReceiveTask (NewKubeletMonitor False) [\<lparr>node_Name = ''a''\<rparr>])
     [\<lparr>node_Name = ''a''\<rparr>] \<and>
   bindF (Stop (ReceiveTask (NewKubeletMonitor False) [\<lparr>node_Name = ''a''\<rparr>]))
     (\<lambda>m1. RetrieveResourceStat (example_client False) m1 [\<lparr>node_Name = ''a''\<rparr>])
   = Inr (None,
       \<lparr>nodeList = [\<lparr>node_Name = ''a''\<rparr>], metricSink = [],
        stopCh = \<lparr>buffered = 0, closed = True\<rparr>, isFullDiscovery = False\<rparr>) \<and>
   schedule (ReceiveTask (NewKubeletMonitor True) [\<lparr>node_Name = ''a''\<rparr>, \<lparr>node_Name = ''b''\<rparr>])
     [\<lparr>node_Name = ''a''\<rparr>, \<lparr>node_Name = ''b''\<rparr>] \<and>
   bindF (Stop (ReceiveTask (NewKubeletMonitor True)
            [\<lparr>node_Name = ''a''\<rparr>, \<lparr>node_Name = ''b''\<rparr>]))
     (\<lambda>m1. RetrieveResourceStat (example_client False) m1
             [\<lparr>node_Name = ''a''\<rparr>, \<lparr>node_Name = ''b''\<rparr>])
   = Inr (None,
       \<lparr>nodeList = [\<lparr>node_Name = ''a''\<rparr>, \<lparr>node_Name = ''b''\<rparr>],
        metricSink = [EntityStateMetric NodeType ''b'' ''CpuFrequency'' (Fin 2000)],
        stopCh = \<lparr>buffered = 0, closed = True\<rparr>, isFullDiscovery = True\<rparr>)"
proof -
  have s1: "schedule (ReceiveTask (NewKubeletMonitor False) [\<lparr>node_Name = ''a''\<rparr>])
     [\<lparr>node_Name = ''a''\<rparr>]"
    by (simp add: schedule_def ReceiveTask_def)
  have s2: "schedule
     (ReceiveTask (NewKubeletMonitor True) [\<lparr>node_Name = ''a''\<rparr>, \<lparr>node_Name = ''b''\<rparr>])
     [\<lparr>node_Name = ''a''\<rparr>, \<lparr>node_Name = ''b''\<rparr>]"
    by (simp add: schedule_def ReceiveTask_def)
  from C8_stop_cancels_one_task [OF s1, of "example_client False"]
    C8_stop_cancels_one_task [OF s2, of "example_client False"] s1 s2
  show ?thesis
    by (simp add: eval_defs cycle_defs)
qed

end
